theory Spec2Isabelle
  imports Complex_Main
begin

section \<open>JavaScript numbers\<close>

text \<open>
  The chart code computes with JavaScript numbers. A number is modelled as a finite real
  or one of the three special values of IEEE arithmetic. Finite results are exact (no
  rounding, no overflow to infinity) and zero carries no sign: a division of a non-zero
  finite number by zero gives the infinity with the sign of the numerator. The special
  values follow IEEE: \<open>0/0\<close>, \<open>\<infinity> - \<infinity>\<close>, \<open>\<infinity> * 0\<close> and \<open>\<infinity>/\<infinity>\<close> are NaN, and NaN
  propagates through every operation.
\<close>

datatype jsnum = Fin real | PInf | NInf | NaN

fun is_fin :: "jsnum \<Rightarrow> bool" where
  "is_fin (Fin a) = True"
| "is_fin PInf = False"
| "is_fin NInf = False"
| "is_fin NaN = False"

fun jneg :: "jsnum \<Rightarrow> jsnum" where
  "jneg (Fin a) = Fin (- a)"
| "jneg PInf = NInf"
| "jneg NInf = PInf"
| "jneg NaN = NaN"

fun jadd :: "jsnum \<Rightarrow> jsnum \<Rightarrow> jsnum" where
  "jadd (Fin a) (Fin b) = Fin (a + b)"
| "jadd (Fin a) PInf = PInf"
| "jadd (Fin a) NInf = NInf"
| "jadd (Fin a) NaN = NaN"
| "jadd PInf (Fin b) = PInf"
| "jadd PInf PInf = PInf"
| "jadd PInf NInf = NaN"
| "jadd PInf NaN = NaN"
| "jadd NInf (Fin b) = NInf"
| "jadd NInf PInf = NaN"
| "jadd NInf NInf = NInf"
| "jadd NInf NaN = NaN"
| "jadd NaN b = NaN"

definition jsub :: "jsnum \<Rightarrow> jsnum \<Rightarrow> jsnum" where
  "jsub a b = jadd a (jneg b)"

fun jmul :: "jsnum \<Rightarrow> jsnum \<Rightarrow> jsnum" where
  "jmul (Fin a) (Fin b) = Fin (a * b)"
| "jmul (Fin a) PInf = (if a = 0 then NaN else if a < 0 then NInf else PInf)"
| "jmul (Fin a) NInf = (if a = 0 then NaN else if a < 0 then PInf else NInf)"
| "jmul (Fin a) NaN = NaN"
| "jmul PInf (Fin b) = (if b = 0 then NaN else if b < 0 then NInf else PInf)"
| "jmul PInf PInf = PInf"
| "jmul PInf NInf = NInf"
| "jmul PInf NaN = NaN"
| "jmul NInf (Fin b) = (if b = 0 then NaN else if b < 0 then PInf else NInf)"
| "jmul NInf PInf = NInf"
| "jmul NInf NInf = PInf"
| "jmul NInf NaN = NaN"
| "jmul NaN b = NaN"

fun jdiv :: "jsnum \<Rightarrow> jsnum \<Rightarrow> jsnum" where
  "jdiv (Fin a) (Fin b) =
     (if b \<noteq> 0 then Fin (a / b)
      else if a = 0 then NaN else if a < 0 then NInf else PInf)"
| "jdiv (Fin a) PInf = Fin 0"
| "jdiv (Fin a) NInf = Fin 0"
| "jdiv (Fin a) NaN = NaN"
| "jdiv PInf (Fin b) = (if b < 0 then NInf else PInf)"
| "jdiv PInf PInf = NaN"
| "jdiv PInf NInf = NaN"
| "jdiv PInf NaN = NaN"
| "jdiv NInf (Fin b) = (if b < 0 then PInf else NInf)"
| "jdiv NInf PInf = NaN"
| "jdiv NInf NInf = NaN"
| "jdiv NInf NaN = NaN"
| "jdiv NaN b = NaN"

text \<open>Comparisons: every comparison with NaN is false.\<close>

fun jlt :: "jsnum \<Rightarrow> jsnum \<Rightarrow> bool" where
  "jlt (Fin a) (Fin b) = (a < b)"
| "jlt (Fin a) PInf = True"
| "jlt (Fin a) NInf = False"
| "jlt (Fin a) NaN = False"
| "jlt PInf b = False"
| "jlt NInf (Fin b) = True"
| "jlt NInf PInf = True"
| "jlt NInf NInf = False"
| "jlt NInf NaN = False"
| "jlt NaN b = False"

definition jgt :: "jsnum \<Rightarrow> jsnum \<Rightarrow> bool" where
  "jgt a b = jlt b a"

definition jle :: "jsnum \<Rightarrow> jsnum \<Rightarrow> bool" where
  "jle a b = (a \<noteq> NaN \<and> b \<noteq> NaN \<and> (jlt a b \<or> a = b))"

text \<open>\<open>Math.max(a, b)\<close> and \<open>Math.min(a, b)\<close>: NaN when either argument is NaN.\<close>

definition jmax :: "jsnum \<Rightarrow> jsnum \<Rightarrow> jsnum" where
  "jmax a b = (if a = NaN \<or> b = NaN then NaN else if jlt a b then b else a)"

definition jmin :: "jsnum \<Rightarrow> jsnum \<Rightarrow> jsnum" where
  "jmin a b = (if a = NaN \<or> b = NaN then NaN else if jlt b a then b else a)"

text \<open>\<open>Math.max(...xs)\<close> starts from \<open>-Infinity\<close>, \<open>Math.min(...xs)\<close> from \<open>Infinity\<close>.\<close>

definition Math_max :: "jsnum list \<Rightarrow> jsnum" where
  "Math_max xs = foldl jmax NInf xs"

definition Math_min :: "jsnum list \<Rightarrow> jsnum" where
  "Math_min xs = foldl jmin PInf xs"

fun Math_ceil :: "jsnum \<Rightarrow> jsnum" where
  "Math_ceil (Fin a) = Fin (of_int \<lceil>a\<rceil>)"
| "Math_ceil PInf = PInf"
| "Math_ceil NInf = NInf"
| "Math_ceil NaN = NaN"

text \<open>\<open>Math.round\<close> rounds to the nearest integer, a tie towards \<open>+\<infinity>\<close>.\<close>

fun Math_round :: "jsnum \<Rightarrow> jsnum" where
  "Math_round (Fin a) = Fin (of_int \<lfloor>a + 1 / 2\<rfloor>)"
| "Math_round PInf = PInf"
| "Math_round NInf = NInf"
| "Math_round NaN = NaN"

text \<open>A number is falsy when it is zero or NaN; \<open>a || b\<close> is \<open>b\<close> for a falsy \<open>a\<close>.\<close>

definition truthy :: "jsnum \<Rightarrow> bool" where
  "truthy a = (a \<noteq> Fin 0 \<and> a \<noteq> NaN)"

definition jor :: "jsnum \<Rightarrow> jsnum \<Rightarrow> jsnum" where
  "jor a b = (if truthy a then a else b)"

definition num :: "nat \<Rightarrow> jsnum" where
  "num n = Fin (real n)"

text \<open>
  \<open>xs.slice(0, k)\<close>: the end index is truncated to an integer (NaN counts as 0), a
  negative end counts from the end of the array, and the result is clamped to the array.
\<close>

fun slice0 :: "jsnum \<Rightarrow> 'a list \<Rightarrow> 'a list" where
  "slice0 (Fin k) xs =
     (if k < 0 then take (nat (int (length xs) + \<lceil>k\<rceil>)) xs else take (nat \<lfloor>k\<rfloor>) xs)"
| "slice0 PInf xs = xs"
| "slice0 NInf xs = []"
| "slice0 NaN xs = []"

section \<open>Data items\<close>

text \<open>
  A data item is an open mapping from field names to values. Reading a field that is
  absent gives \<open>undefined\<close>. The values modelled are numbers, \<open>undefined\<close> and \<open>null\<close>.
\<close>

datatype jsval = Undefined | Null | Num jsnum

type_synonym dataPoint = "string \<rightharpoonup> jsval"

definition field :: "dataPoint \<Rightarrow> string \<Rightarrow> jsval" where
  "field d k = (case d k of None \<Rightarrow> Undefined | Some v \<Rightarrow> v)"

text \<open>\<open>d[key] || 0\<close>\<close>

fun or0 :: "jsval \<Rightarrow> jsnum" where
  "or0 Undefined = Fin 0"
| "or0 Null = Fin 0"
| "or0 (Num a) = jor a (Fin 0)"

section \<open>Path commands\<close>

text \<open>
  A path string is modelled by the list of its commands: \<open>M x y\<close>, \<open>L x y\<close>, \<open>H x\<close>,
  \<open>V y\<close>, \<open>C x1 y1, x2 y2, x y\<close>, \<open>A r r 0 largeArc sweep x y\<close> and \<open>Z\<close>. The empty string is the empty list.
\<close>

datatype pathCmd =
    MoveTo jsnum jsnum
  | LineTo jsnum jsnum
  | HLine jsnum
  | VLine jsnum
  | CurveTo jsnum jsnum jsnum jsnum jsnum jsnum
  | ArcTo jsnum jsnum nat nat jsnum jsnum
  | ClosePath

datatype jsError = TypeError

text \<open>
  \<open>xs[j]\<close> for a number \<open>j\<close>: the element when \<open>j\<close> is an integer index inside the array,
  \<open>undefined\<close> (None) otherwise.
\<close>

definition idx :: "'a list \<Rightarrow> jsnum \<Rightarrow> 'a option" where
  "idx xs j =
     (case j of
        Fin r \<Rightarrow> if 0 \<le> r \<and> r = of_int \<lfloor>r\<rfloor> \<and> nat \<lfloor>r\<rfloor> < length xs
                 then Some (xs ! nat \<lfloor>r\<rfloor>) else None
      | _ \<Rightarrow> None)"

record xy =
  pt_x :: jsnum
  pt_y :: jsnum

record point = xy +
  pt_value :: jsnum

section \<open>ChartUtils: colors\<close>

definition colorPalettes :: "string \<rightharpoonup> string list" where
  "colorPalettes = map_of
     [(''violet'', [''#7c3aed'', ''#8b5cf6'', ''#a78bfa'', ''#c4b5fd'', ''#ddd6fe'', ''#ede9fe'', ''#f5f3ff'']),
      (''blue'', [''#2563eb'', ''#3b82f6'', ''#60a5fa'', ''#93c5fd'', ''#bfdbfe'', ''#dbeafe'', ''#eff6ff'']),
      (''emerald'', [''#059669'', ''#10b981'', ''#34d399'', ''#6ee7b7'', ''#a7f3d0'', ''#d1fae5'', ''#ecfdf5'']),
      (''rose'', [''#e11d48'', ''#f43f5e'', ''#fb7185'', ''#fda4af'', ''#fecdd3'', ''#ffe4e6'', ''#fff1f2'']),
      (''amber'', [''#d97706'', ''#f59e0b'', ''#fbbf24'', ''#fcd34d'', ''#fde68a'', ''#fef3c7'', ''#fffbeb'']),
      (''slate'', [''#334155'', ''#475569'', ''#64748b'', ''#94a3b8'', ''#cbd5e1'', ''#e2e8f0'', ''#f1f5f9''])]"

definition multiColors :: "string list" where
  "multiColors = [''#8b5cf6'', ''#3b82f6'', ''#10b981'', ''#f59e0b'', ''#f43f5e'', ''#ec4899'', ''#06b6d4'', ''#84cc16'']"

text \<open>\<open>colorPalettes[palette] || colorPalettes.violet\<close>\<close>

definition paletteOf :: "string \<Rightarrow> string list" where
  "paletteOf palette =
     (case colorPalettes palette of
        Some colors \<Rightarrow> colors
      | None \<Rightarrow> [''#7c3aed'', ''#8b5cf6'', ''#a78bfa'', ''#c4b5fd'', ''#ddd6fe'', ''#ede9fe'', ''#f5f3ff''])"

definition getColor :: "string \<Rightarrow> nat \<Rightarrow> string" where
  "getColor palette index =
     (if palette = ''multi'' then multiColors ! (index mod length multiColors)
      else paletteOf palette ! (min index (length (paletteOf palette) - 1)))"

section \<open>SparklineChart\<close>

record sparkProps =
  sp_data :: "jsnum list"
  sp_width :: jsnum
  sp_height :: jsnum
  sp_animationProgress :: jsnum

definition spark_maxValue :: "sparkProps \<Rightarrow> jsnum" where
  "spark_maxValue P = Math_max (sp_data P)"

definition spark_minValue :: "sparkProps \<Rightarrow> jsnum" where
  "spark_minValue P = Math_min (sp_data P)"

definition spark_range :: "sparkProps \<Rightarrow> jsnum" where
  "spark_range P = jor (jsub (spark_maxValue P) (spark_minValue P)) (Fin 1)"

definition spark_padding :: "sparkProps \<Rightarrow> jsnum" where
  "spark_padding P = jmul (sp_height P) (Fin (1 / 10))"

definition spark_getY :: "sparkProps \<Rightarrow> jsnum \<Rightarrow> jsnum" where
  "spark_getY P v =
     jsub (jsub (sp_height P) (spark_padding P))
          (jmul (jdiv (jsub v (spark_minValue P)) (spark_range P))
                (jsub (sp_height P) (jmul (spark_padding P) (Fin 2))))"

definition spark_points :: "sparkProps \<Rightarrow> point list" where
  "spark_points P =
     map (\<lambda>i. \<lparr> pt_x = jmul (jdiv (num i) (jsub (num (length (sp_data P))) (Fin 1))) (sp_width P),
                pt_y = spark_getY P (sp_data P ! i),
                pt_value = sp_data P ! i \<rparr>)
         [0 ..< length (sp_data P)]"

definition spark_visiblePoints :: "sparkProps \<Rightarrow> point list" where
  "spark_visiblePoints P =
     slice0 (jor (Math_ceil (jmul (num (length (spark_points P))) (sp_animationProgress P))) (Fin 1))
            (spark_points P)"

definition spark_linePath :: "sparkProps \<Rightarrow> pathCmd list" where
  "spark_linePath P =
     map (\<lambda>i. if i = 0 then MoveTo (pt_x (spark_visiblePoints P ! i)) (pt_y (spark_visiblePoints P ! i))
               else LineTo (pt_x (spark_visiblePoints P ! i)) (pt_y (spark_visiblePoints P ! i)))
         [0 ..< length (spark_visiblePoints P)]"

text \<open>The component returns \<open>null\<close> for empty data and the rendered points otherwise.\<close>

definition SparklineChart :: "sparkProps \<Rightarrow> (point list \<times> pathCmd list) option" where
  "SparklineChart P =
     (if length (sp_data P) = 0 then None
      else Some (spark_visiblePoints P, spark_linePath P))"

section \<open>AreaChart\<close>

datatype areaVariant = Curved | Straight | Stacked | Gradient | Stepped

datatype yKeyProp = OneKey string | ManyKeys "string list"

text \<open>The props the geometry depends on, with the two pieces of component state
  (\<open>animationProgress\<close>, \<open>hiddenSeries\<close>) it reads.\<close>

record areaProps =
  ac_data :: "dataPoint list"
  ac_yKey :: yKeyProp
  ac_variant :: areaVariant
  ac_color :: string
  ac_showGrid :: bool
  ac_showLine :: bool
  ac_width :: jsnum
  ac_height :: jsnum
  ac_showXAxis :: bool
  ac_showYAxis :: bool
  ac_yAxisWidth :: jsnum
  ac_xAxisHeight :: jsnum
  ac_animationProgress :: jsnum
  ac_hiddenSeries :: "nat set"

record areaPoint = point +
  pt_item :: dataPoint
  pt_stackedBase :: jsnum

definition topPadding :: jsnum where
  "topPadding = Fin 15"

definition area_chartWidth :: "areaProps \<Rightarrow> jsnum" where
  "area_chartWidth P = jsub (ac_width P) (if ac_showYAxis P then ac_yAxisWidth P else Fin 0)"

definition area_chartHeight :: "areaProps \<Rightarrow> jsnum" where
  "area_chartHeight P =
     jsub (jsub (ac_height P) (if ac_showXAxis P then ac_xAxisHeight P else Fin 0)) topPadding"

definition area_chartX :: "areaProps \<Rightarrow> jsnum" where
  "area_chartX P = (if ac_showYAxis P then ac_yAxisWidth P else Fin 0)"

definition area_chartY :: "areaProps \<Rightarrow> jsnum" where
  "area_chartY P = topPadding"

definition area_yKeys :: "areaProps \<Rightarrow> string list" where
  "area_yKeys P = (case ac_yKey P of OneKey k \<Rightarrow> [k] | ManyKeys ks \<Rightarrow> ks)"

definition area_isMultiSeries :: "areaProps \<Rightarrow> bool" where
  "area_isMultiSeries P = (length (area_yKeys P) > 1)"

definition area_isStacked :: "areaProps \<Rightarrow> bool" where
  "area_isStacked P = (ac_variant P = Stacked \<and> area_isMultiSeries P)"

text \<open>\<open>xs.filter((_, i) => !hidden.has(i))\<close>\<close>

definition filterVisible :: "nat set \<Rightarrow> 'a list \<Rightarrow> 'a list" where
  "filterVisible hidden ks = map (\<lambda>i. ks ! i) (filter (\<lambda>i. i \<notin> hidden) [0 ..< length ks])"

definition area_visibleYKeys :: "areaProps \<Rightarrow> string list" where
  "area_visibleYKeys P = filterVisible (ac_hiddenSeries P) (area_yKeys P)"

definition area_maxValue :: "areaProps \<Rightarrow> jsnum" where
  "area_maxValue P =
     (let keys = (if length (area_visibleYKeys P) > 0 then area_visibleYKeys P else area_yKeys P)
      in if area_isStacked P
         then jmul (Math_max (map (\<lambda>d. foldl (\<lambda>sum key. jadd sum (or0 (field d key))) (Fin 0) keys)
                                  (ac_data P)))
                   (Fin (11 / 10))
         else jmul (Math_max (concat (map (\<lambda>d. map (\<lambda>key. or0 (field d key)) keys) (ac_data P))))
                   (Fin (11 / 10)))"

definition area_minValue :: jsnum where
  "area_minValue = Fin 0"

definition area_valueRange :: "areaProps \<Rightarrow> jsnum" where
  "area_valueRange P = jsub (area_maxValue P) area_minValue"

text \<open>The pixel a value maps to: \<open>chartY + chartHeight - ((v - minValue) / valueRange) * chartHeight\<close>.\<close>

definition area_valueY :: "areaProps \<Rightarrow> jsnum \<Rightarrow> jsnum" where
  "area_valueY P v =
     jsub (jadd (area_chartY P) (area_chartHeight P))
          (jmul (jdiv (jsub v area_minValue) (area_valueRange P)) (area_chartHeight P))"

text \<open>The pixel a data index maps to: \<open>chartX + (i / Math.max(data.length - 1, 1)) * chartWidth\<close>.\<close>

definition area_indexX :: "areaProps \<Rightarrow> jsnum \<Rightarrow> jsnum" where
  "area_indexX P i =
     jadd (area_chartX P)
          (jmul (jdiv i (jmax (jsub (num (length (ac_data P))) (Fin 1)) (Fin 1))) (area_chartWidth P))"

definition area_getPoints :: "areaProps \<Rightarrow> string \<Rightarrow> jsnum list option \<Rightarrow> areaPoint list" where
  "area_getPoints P key stackedValues =
     map (\<lambda>i. let item = ac_data P ! i;
                   x = area_indexX P (num i);
                   value = or0 (field item key);
                   stackedBase = (case stackedValues of None \<Rightarrow> Fin 0 | Some sv \<Rightarrow> sv ! i);
                   y = area_valueY P (jadd value stackedBase)
               in \<lparr> pt_x = x, pt_y = y, pt_value = value, pt_item = item, pt_stackedBase = stackedBase \<rparr>)
         [0 ..< length (ac_data P)]"

text \<open>\<open>points.slice(0, Math.ceil(points.length * animationProgress) || 1)\<close>\<close>

definition visiblePrefix :: "jsnum \<Rightarrow> 'a list \<Rightarrow> 'a list" where
  "visiblePrefix progress points =
     slice0 (jor (Math_ceil (jmul (num (length points)) progress)) (Fin 1)) points"

text \<open>The tangent pushed for index \<open>i\<close> by the loop over the visible points.\<close>

definition tangentAt :: "('a xy_scheme) list \<Rightarrow> nat \<Rightarrow> jsnum" where
  "tangentAt vp i =
     (let n = length vp in
      if i = 0 then
        jdiv (jsub (pt_y (vp ! 1)) (pt_y (vp ! 0))) (jsub (pt_x (vp ! 1)) (pt_x (vp ! 0)))
      else if i = n - 1 then
        jdiv (jsub (pt_y (vp ! (n - 1))) (pt_y (vp ! (n - 2))))
             (jsub (pt_x (vp ! (n - 1))) (pt_x (vp ! (n - 2))))
      else
        let slopeLeft = jdiv (jsub (pt_y (vp ! i)) (pt_y (vp ! (i - 1))))
                             (jsub (pt_x (vp ! i)) (pt_x (vp ! (i - 1))));
            slopeRight = jdiv (jsub (pt_y (vp ! (i + 1))) (pt_y (vp ! i)))
                              (jsub (pt_x (vp ! (i + 1))) (pt_x (vp ! i)))
        in if jle (jmul slopeLeft slopeRight) (Fin 0) then Fin 0
           else jdiv (Fin 2) (jadd (jdiv (Fin 1) slopeLeft) (jdiv (Fin 1) slopeRight)))"

text \<open>The cubic segment appended for index \<open>i\<close> by the second loop.\<close>

definition bezierSegment :: "('a xy_scheme) list \<Rightarrow> jsnum list \<Rightarrow> nat \<Rightarrow> pathCmd" where
  "bezierSegment vp tangents i =
     (let p0 = vp ! i;
          p1 = vp ! (i + 1);
          dx = jdiv (jsub (pt_x p1) (pt_x p0)) (Fin 3);
          cp1x = jadd (pt_x p0) dx;
          cp1y = jadd (pt_y p0) (jmul (tangents ! i) dx);
          cp2x = jsub (pt_x p1) dx;
          cp2y = jsub (pt_y p1) (jmul (tangents ! (i + 1)) dx)
      in CurveTo cp1x cp1y cp2x cp2y (pt_x p1) (pt_y p1))"

definition monotoneSegments :: "('a xy_scheme) list \<Rightarrow> pathCmd list" where
  "monotoneSegments vp =
     (let n = length vp;
          tangents = map (tangentAt vp) [0 ..< n]
      in map (bezierSegment vp tangents) [0 ..< n - 1])"

text \<open>
  \<open>generateLinePath(points, smooth)\<close>. Reading \<open>visiblePoints[0].x\<close> of an empty prefix
  throws a TypeError (the stepped branch reads it before any length check).
\<close>

definition area_generateLinePath ::
  "areaProps \<Rightarrow> ('a xy_scheme) list \<Rightarrow> bool \<Rightarrow> jsError + pathCmd list" where
  "area_generateLinePath P points smooth =
     (if length points < 2 then Inr []
      else
        let visiblePoints = visiblePrefix (ac_animationProgress P) points in
        if ac_variant P = Stepped then
          (if visiblePoints = [] then Inl TypeError
           else Inr (MoveTo (pt_x (visiblePoints ! 0)) (pt_y (visiblePoints ! 0)) #
                     concat (map (\<lambda>i. [HLine (pt_x (visiblePoints ! i)), VLine (pt_y (visiblePoints ! i))])
                                 [1 ..< length visiblePoints])))
        else if \<not> smooth then
          Inr (map (\<lambda>i. if i = 0 then MoveTo (pt_x (visiblePoints ! i)) (pt_y (visiblePoints ! i))
                         else LineTo (pt_x (visiblePoints ! i)) (pt_y (visiblePoints ! i)))
                   [0 ..< length visiblePoints])
        else if length visiblePoints < 2 then Inr []
        else if length visiblePoints = 2 then
          Inr [MoveTo (pt_x (visiblePoints ! 0)) (pt_y (visiblePoints ! 0)),
               LineTo (pt_x (visiblePoints ! 1)) (pt_y (visiblePoints ! 1))]
        else
          Inr (MoveTo (pt_x (visiblePoints ! 0)) (pt_y (visiblePoints ! 0)) #
               monotoneSegments visiblePoints))"

text \<open>The default of the second parameter: \<open>smooth = variant === 'curved'\<close>.\<close>

definition area_smoothDefault :: "areaProps \<Rightarrow> bool" where
  "area_smoothDefault P = (ac_variant P = Curved)"

text \<open>
  \<open>generateAreaPath(points, basePoints)\<close>: the line path plus the closing edge. In the
  stacked branch \<open>baseYPoints[0].y\<close> throws a TypeError when the base list is empty.
\<close>

definition area_baseYPoints :: "areaProps \<Rightarrow> areaPoint list \<Rightarrow> xy list" where
  "area_baseYPoints P basePoints =
     map (\<lambda>curr. \<lparr> pt_x = pt_x curr, pt_y = area_valueY P (pt_stackedBase curr) \<rparr>)
         (rev (visiblePrefix (ac_animationProgress P) basePoints))"

definition area_closePath :: "areaProps \<Rightarrow> areaPoint \<Rightarrow> xy list \<Rightarrow> pathCmd list" where
  "area_closePath P lastPoint baseYPoints =
     LineTo (pt_x lastPoint) (pt_y (baseYPoints ! 0)) #
     (if ac_variant P = Stepped then
        concat (map (\<lambda>i. [VLine (pt_y (baseYPoints ! i)), HLine (pt_x (baseYPoints ! i))])
                    [1 ..< length baseYPoints])
      else if ac_variant P = Curved \<and> length baseYPoints > 2 then
        monotoneSegments baseYPoints
      else
        map (\<lambda>i. LineTo (pt_x (baseYPoints ! i)) (pt_y (baseYPoints ! i))) [1 ..< length baseYPoints])
     @ [ClosePath]"

definition area_generateAreaPath ::
  "areaProps \<Rightarrow> areaPoint list \<Rightarrow> areaPoint list option \<Rightarrow> jsError + pathCmd list" where
  "area_generateAreaPath P points basePoints =
     (case area_generateLinePath P points (area_smoothDefault P) of
        Inl e \<Rightarrow> Inl e
      | Inr linePath \<Rightarrow>
          if linePath = [] then Inr []
          else
            let visiblePoints = visiblePrefix (ac_animationProgress P) points in
            if visiblePoints = [] then Inl TypeError
            else
              let lastPoint = last visiblePoints;
                  firstPoint = hd visiblePoints
              in (case (if ac_variant P = Stacked then basePoints else None) of
                    Some bp \<Rightarrow>
                      if area_baseYPoints P bp = [] then Inl TypeError
                      else Inr (linePath @ area_closePath P lastPoint (area_baseYPoints P bp))
                  | None \<Rightarrow>
                      Inr (linePath @
                           [LineTo (pt_x lastPoint) (jadd (area_chartY P) (area_chartHeight P)),
                            LineTo (pt_x firstPoint) (jadd (area_chartY P) (area_chartHeight P)),
                            ClosePath])))"

definition getAreaColor :: "areaProps \<Rightarrow> nat \<Rightarrow> string" where
  "getAreaColor P index =
     (if area_isMultiSeries P then multiColors ! (index mod length multiColors)
      else getColor (ac_color P) 0)"

record seriesEntry =
  se_key :: string
  se_points :: "areaPoint list"
  se_index :: nat
  se_hidden :: bool

text \<open>
  \<open>allPoints\<close>: the loop over \<open>yKeys\<close>, with the running \<open>stackedValues\<close> array as state. A
  hidden series pushes an entry without points and leaves \<open>stackedValues\<close> alone.
\<close>

fun allPoints_loop :: "areaProps \<Rightarrow> nat \<Rightarrow> jsnum list \<Rightarrow> string list \<Rightarrow> seriesEntry list" where
  "allPoints_loop P ki stackedValues [] = []"
| "allPoints_loop P ki stackedValues (key # keys) =
     (if ki \<in> ac_hiddenSeries P then
        \<lparr> se_key = key, se_points = [], se_index = ki, se_hidden = True \<rparr> #
        allPoints_loop P (Suc ki) stackedValues keys
      else
        \<lparr> se_key = key,
          se_points = area_getPoints P key (if area_isStacked P then Some stackedValues else None),
          se_index = ki, se_hidden = False \<rparr> #
        allPoints_loop P (Suc ki)
          (if area_isStacked P
           then map (\<lambda>i. jadd (stackedValues ! i) (or0 (field (ac_data P ! i) key)))
                    [0 ..< length (ac_data P)]
           else stackedValues)
          keys)"

definition area_allPoints :: "areaProps \<Rightarrow> seriesEntry list" where
  "area_allPoints P = allPoints_loop P 0 (map (\<lambda>_. Fin 0) (ac_data P)) (area_yKeys P)"

text \<open>
  \<open>renderYAxis\<close>: five ticks, each with the pixel of its label and, with the grid on, of
  its grid line.
\<close>

record yTick =
  tick_value :: jsnum
  tick_textY :: jsnum
  tick_lineY :: "jsnum option"

definition area_renderYAxis :: "areaProps \<Rightarrow> yTick list option" where
  "area_renderYAxis P =
     (if \<not> ac_showYAxis P then None
      else Some (map (\<lambda>i. let tick = jadd area_minValue (jmul (jdiv (area_valueRange P) (Fin 4)) (num i))
                           in \<lparr> tick_value = tick,
                                tick_textY = jadd (area_valueY P tick) (Fin 4),
                                tick_lineY = (if ac_showGrid P then Some (area_valueY P tick) else None) \<rparr>)
                     [0 ..< 5]))"



text \<open>The paths drawn for one visible series, and the list of them in drawing order.\<close>

record renderedSeries =
  rs_key :: string
  rs_index :: nat
  rs_color :: string
  rs_areaPath :: "pathCmd list"
  rs_linePath :: "pathCmd list option"

definition area_renderSeries :: "areaProps \<Rightarrow> seriesEntry \<Rightarrow> jsError + renderedSeries" where
  "area_renderSeries P ap =
     (let prevPoints = (if area_isStacked P \<and> se_index ap > 0
                        then Some (se_points (area_allPoints P ! (se_index ap - 1))) else None)
      in case area_generateAreaPath P (se_points ap) prevPoints of
           Inl e \<Rightarrow> Inl e
         | Inr areaPath \<Rightarrow>
             (if ac_showLine P then
                (case area_generateLinePath P (se_points ap) (area_smoothDefault P) of
                   Inl e \<Rightarrow> Inl e
                 | Inr linePath \<Rightarrow>
                     Inr \<lparr> rs_key = se_key ap, rs_index = se_index ap,
                           rs_color = getAreaColor P (se_index ap),
                           rs_areaPath = areaPath, rs_linePath = Some linePath \<rparr>)
              else Inr \<lparr> rs_key = se_key ap, rs_index = se_index ap,
                         rs_color = getAreaColor P (se_index ap),
                         rs_areaPath = areaPath, rs_linePath = None \<rparr>))"

fun collect :: "('e + 'a) list \<Rightarrow> 'e + 'a list" where
  "collect [] = Inr []"
| "collect (Inl e # rs) = Inl e"
| "collect (Inr a # rs) = (case collect rs of Inl e \<Rightarrow> Inl e | Inr as \<Rightarrow> Inr (a # as))"

definition area_renderAreas :: "areaProps \<Rightarrow> jsError + renderedSeries list" where
  "area_renderAreas P =
     collect (map (area_renderSeries P)
                  (filter (\<lambda>ap. \<not> se_hidden ap)
                          (if area_isStacked P then rev (area_allPoints P) else area_allPoints P)))"

section \<open>Crosshair snapping\<close>

text \<open>
  The index and pixel computation of both snap handlers:
  \<open>stepWidth = chartWidth / Math.max(n - 1, 1)\<close>,
  \<open>nearestIndex = Math.max(0, Math.min(Math.round((mouseX - chartX) / stepWidth), n - 1))\<close>,
  \<open>snapX = chartX + (nearestIndex / Math.max(n - 1, 1)) * chartWidth\<close>.
\<close>

definition stepWidth :: "nat \<Rightarrow> jsnum \<Rightarrow> jsnum" where
  "stepWidth n chartWidth = jdiv chartWidth (jmax (jsub (num n) (Fin 1)) (Fin 1))"

definition nearestIndex :: "nat \<Rightarrow> jsnum \<Rightarrow> jsnum \<Rightarrow> jsnum \<Rightarrow> jsnum" where
  "nearestIndex n chartX chartWidth mouseX =
     jmax (Fin 0)
          (jmin (Math_round (jdiv (jsub mouseX chartX) (stepWidth n chartWidth)))
                (jsub (num n) (Fin 1)))"

definition snapX :: "nat \<Rightarrow> jsnum \<Rightarrow> jsnum \<Rightarrow> jsnum \<Rightarrow> jsnum" where
  "snapX n chartX chartWidth index =
     jadd chartX (jmul (jdiv index (jmax (jsub (num n) (Fin 1)) (Fin 1))) chartWidth)"

record 'p crosshair =
  ch_visible :: bool
  ch_x :: jsnum
  ch_index :: jsnum
  ch_points :: "'p list"

record tooltipPos =
  tt_visible :: bool
  tt_x :: jsnum
  tt_y :: jsnum

record areaCrosshairPoint =
  cp_y :: jsnum
  cp_color :: string
  cp_value :: jsnum
  cp_key :: string

text \<open>
  AreaChart's \<open>handleChartMouseMove\<close>. The arguments are the left edge of the container's
  bounding rectangle (None when the container is not attached), the pointer's \<open>clientX\<close>,
  and whether a tooltip is shown and formatted by the caller. The result is None for the
  early return, and otherwise the crosshair and tooltip states that are set. The default
  tooltip content reads \<open>item[xKey]\<close>, which throws a TypeError when \<open>data[nearestIndex]\<close>
  is undefined.
\<close>

definition area_handleChartMouseMove ::
  "areaProps \<Rightarrow> bool \<Rightarrow> bool \<Rightarrow> jsnum option \<Rightarrow> jsnum
   \<Rightarrow> jsError + (areaCrosshairPoint crosshair \<times> tooltipPos option) option" where
  "area_handleChartMouseMove P showTooltip hasFormatter rectLeft clientX =
     (case rectLeft of
        None \<Rightarrow> Inr None
      | Some left \<Rightarrow>
          if length (ac_data P) = 0 then Inr None
          else
            let mouseX = jsub clientX left;
                ni = nearestIndex (length (ac_data P)) (area_chartX P) (area_chartWidth P) mouseX;
                sx = area_indexX P ni;
                item = idx (ac_data P) ni;
                points = concat (map (\<lambda>ap. if se_hidden ap then []
                                            else (case idx (se_points ap) ni of
                                                    None \<Rightarrow> []
                                                  | Some pt \<Rightarrow>
                                                      [\<lparr> cp_y = pt_y pt, cp_color = getAreaColor P (se_index ap),
                                                         cp_value = pt_value pt, cp_key = se_key ap \<rparr>]))
                                     (area_allPoints P));
                ch = \<lparr> ch_visible = True, ch_x = sx, ch_index = ni, ch_points = points \<rparr>
            in if showTooltip then
                 (if \<not> hasFormatter \<and> item = None then Inl TypeError
                  else Inr (Some (ch, Some \<lparr> tt_visible = True, tt_x = sx,
                                              tt_y = (if length points > 0 then Math_min (map cp_y points)
                                                      else Fin 0) \<rparr>)))
               else Inr (Some (ch, None)))"

text \<open>ChartUtils' \<open>useCrosshairSnap\<close>: the hook's \<open>handleChartMouseMove\<close>.\<close>

record snapProps =
  cs_data :: "dataPoint list"
  cs_chartX :: jsnum
  cs_chartWidth :: jsnum
  cs_yKeys :: "string list"
  cs_getPointY :: "dataPoint option \<Rightarrow> string \<Rightarrow> jsnum \<Rightarrow> jsnum"
  cs_getColor :: "nat \<Rightarrow> string"
  cs_showTooltip :: bool
  cs_hasFormatter :: bool

record snapPoint =
  sn_y :: jsnum
  sn_color :: string

definition handleChartMouseMove ::
  "snapProps \<Rightarrow> jsnum option \<Rightarrow> jsnum
   \<Rightarrow> jsError + (snapPoint crosshair \<times> tooltipPos option) option" where
  "handleChartMouseMove S rectLeft clientX =
     (case rectLeft of
        None \<Rightarrow> Inr None
      | Some left \<Rightarrow>
          if length (cs_data S) = 0 then Inr None
          else
            let mouseX = jsub clientX left;
                ni = nearestIndex (length (cs_data S)) (cs_chartX S) (cs_chartWidth S) mouseX;
                sx = snapX (length (cs_data S)) (cs_chartX S) (cs_chartWidth S) ni;
                item = idx (cs_data S) ni;
                points = map (\<lambda>ki. \<lparr> sn_y = cs_getPointY S item (cs_yKeys S ! ki) ni,
                                      sn_color = cs_getColor S ki \<rparr>)
                             [0 ..< length (cs_yKeys S)];
                ch = \<lparr> ch_visible = True, ch_x = sx, ch_index = ni, ch_points = points \<rparr>
            in if cs_showTooltip S then
                 (if \<not> cs_hasFormatter S \<and> item = None then Inl TypeError
                  else Inr (Some (ch, Some \<lparr> tt_visible = True, tt_x = sx,
                                              tt_y = jsub (Math_min (map sn_y points)) (Fin 10) \<rparr>)))
               else Inr (Some (ch, None)))"

section \<open>BarChart\<close>

datatype barVariant = BarDefault | Grouped | BarStacked | Horizontal | BarGradient

record barProps =
  bc_data :: "dataPoint list"
  bc_yKey :: yKeyProp
  bc_variant :: barVariant
  bc_color :: string
  bc_rounded :: bool
  bc_barRadius :: jsnum
  bc_width :: jsnum
  bc_height :: jsnum
  bc_barWidth :: jsnum
  bc_gap :: jsnum
  bc_showXAxis :: bool
  bc_showYAxis :: bool
  bc_yAxisWidth :: jsnum
  bc_xAxisHeight :: jsnum
  bc_animationProgress :: jsnum
  bc_hiddenSeries :: "nat set"

definition bar_isHorizontal :: "barProps \<Rightarrow> bool" where
  "bar_isHorizontal P = (bc_variant P = Horizontal)"

definition bar_chartWidth :: "barProps \<Rightarrow> jsnum" where
  "bar_chartWidth P =
     (if bar_isHorizontal P then jsub (bc_width P) (if bc_showYAxis P then Fin 80 else Fin 0)
      else jsub (bc_width P) (if bc_showYAxis P then bc_yAxisWidth P else Fin 0))"

definition bar_chartHeight :: "barProps \<Rightarrow> jsnum" where
  "bar_chartHeight P = jsub (bc_height P) (if bc_showXAxis P then bc_xAxisHeight P else Fin 0)"

definition bar_chartX :: "barProps \<Rightarrow> jsnum" where
  "bar_chartX P =
     (if bar_isHorizontal P then (if bc_showYAxis P then Fin 80 else Fin 0)
      else (if bc_showYAxis P then bc_yAxisWidth P else Fin 0))"

definition bar_yKeys :: "barProps \<Rightarrow> string list" where
  "bar_yKeys P = (case bc_yKey P of OneKey k \<Rightarrow> [k] | ManyKeys ks \<Rightarrow> ks)"

definition bar_isMultiSeries :: "barProps \<Rightarrow> bool" where
  "bar_isMultiSeries P = (length (bar_yKeys P) > 1)"

definition bar_visibleYKeys :: "barProps \<Rightarrow> string list" where
  "bar_visibleYKeys P = filterVisible (bc_hiddenSeries P) (bar_yKeys P)"

definition bar_maxValue :: "barProps \<Rightarrow> jsnum" where
  "bar_maxValue P =
     (let keys = (if length (bar_visibleYKeys P) > 0 then bar_visibleYKeys P else bar_yKeys P)
      in if bc_variant P = BarStacked
         then Math_max (map (\<lambda>d. foldl (\<lambda>sum key. jadd sum (or0 (field d key))) (Fin 0) keys)
                            (bc_data P))
         else Math_max (concat (map (\<lambda>d. map (\<lambda>key. or0 (field d key)) keys) (bc_data P))))"

definition bar_totalBarSpace :: "barProps \<Rightarrow> jsnum" where
  "bar_totalBarSpace P = (if bar_isHorizontal P then bar_chartHeight P else bar_chartWidth P)"

definition bar_barGap :: "barProps \<Rightarrow> jsnum" where
  "bar_barGap P =
     jdiv (jmul (if bar_isHorizontal P then bar_chartHeight P else bar_chartWidth P) (bc_gap P))
          (jadd (num (length (bc_data P))) (Fin 1))"

definition bar_totalBarWidth :: "barProps \<Rightarrow> jsnum" where
  "bar_totalBarWidth P =
     jdiv (jsub (bar_totalBarSpace P) (jmul (bar_barGap P) (jadd (num (length (bc_data P))) (Fin 1))))
          (num (length (bc_data P)))"

definition bar_actualBarWidth :: "barProps \<Rightarrow> jsnum" where
  "bar_actualBarWidth P = jmul (bar_totalBarWidth P) (bc_barWidth P)"

definition bar_barOffset :: "barProps \<Rightarrow> jsnum" where
  "bar_barOffset P = jdiv (jsub (bar_totalBarWidth P) (bar_actualBarWidth P)) (Fin 2)"

definition getBarColor :: "barProps \<Rightarrow> nat \<Rightarrow> nat \<Rightarrow> string" where
  "getBarColor P dataIndex seriesIndex =
     (if bc_variant P = Grouped \<or> bc_variant P = BarStacked then
        (if bar_isMultiSeries P then multiColors ! (seriesIndex mod length multiColors)
         else getColor (bc_color P) 0)
      else getColor (bc_color P) 0)"

record barRect =
  br_x :: jsnum
  br_y :: jsnum
  br_width :: jsnum
  br_height :: jsnum
  br_fill :: string
  br_rx :: jsnum

text \<open>\<open>(value / maxValue) * chartHeight * animationProgress\<close>\<close>

definition bar_barHeight :: "barProps \<Rightarrow> jsnum \<Rightarrow> jsnum" where
  "bar_barHeight P v =
     jmul (jmul (jdiv v (bar_maxValue P)) (bar_chartHeight P)) (bc_animationProgress P)"

text \<open>\<open>chartX + barGap + i * (totalBarWidth + barGap) + barOffset\<close>\<close>

definition bar_x :: "barProps \<Rightarrow> nat \<Rightarrow> jsnum" where
  "bar_x P i =
     jadd (jadd (jadd (bar_chartX P) (bar_barGap P))
                (jmul (num i) (jadd (bar_totalBarWidth P) (bar_barGap P))))
          (bar_barOffset P)"

definition bar_lastVisibleKeyIndex :: "barProps \<Rightarrow> nat option" where
  "bar_lastVisibleKeyIndex P =
     (let visibleKeyIndices = filter (\<lambda>ki. ki \<notin> bc_hiddenSeries P) [0 ..< length (bar_yKeys P)]
      in if length visibleKeyIndices > 0 then Some (last visibleKeyIndices) else None)"

text \<open>
  The stacked branch of \<open>renderBars\<close> for one data item: the loop over \<open>yKeys\<close> with the
  running \<open>currentY\<close>. A hidden series yields \<open>null\<close> (None) and leaves \<open>currentY\<close> alone.
\<close>

fun stackedBars_loop ::
  "barProps \<Rightarrow> nat \<Rightarrow> nat \<Rightarrow> jsnum \<Rightarrow> string list \<Rightarrow> barRect option list" where
  "stackedBars_loop P i ki currentY [] = []"
| "stackedBars_loop P i ki currentY (key # keys) =
     (if ki \<in> bc_hiddenSeries P then None # stackedBars_loop P i (Suc ki) currentY keys
      else
        let value = or0 (field (bc_data P ! i) key);
            barHeight = bar_barHeight P value;
            y = jsub (jsub (bar_chartHeight P) currentY) barHeight
        in Some \<lparr> br_x = bar_x P i, br_y = y, br_width = bar_actualBarWidth P, br_height = barHeight,
                   br_fill = getBarColor P i ki,
                   br_rx = (if Some ki = bar_lastVisibleKeyIndex P \<and> bc_rounded P
                            then bc_barRadius P else Fin 0) \<rparr> #
           stackedBars_loop P i (Suc ki) (jadd currentY barHeight) keys)"

text \<open>The grouped branch: the loop with the running \<open>activeIndex\<close>.\<close>

fun groupedBars_loop ::
  "barProps \<Rightarrow> nat \<Rightarrow> nat \<Rightarrow> nat \<Rightarrow> string list \<Rightarrow> barRect option list" where
  "groupedBars_loop P i ki activeIndex [] = []"
| "groupedBars_loop P i ki activeIndex (key # keys) =
     (if ki \<in> bc_hiddenSeries P then None # groupedBars_loop P i (Suc ki) activeIndex keys
      else
        let value = or0 (field (bc_data P ! i) key);
            barHeight = bar_barHeight P value;
            groupBarWidth = jdiv (bar_actualBarWidth P)
                                 (jmax (num (length (bar_visibleYKeys P))) (Fin 1));
            barX = jadd (bar_x P i) (jmul (num activeIndex) groupBarWidth)
        in Some \<lparr> br_x = barX, br_y = jsub (bar_chartHeight P) barHeight,
                   br_width = jsub groupBarWidth (Fin 2), br_height = barHeight,
                   br_fill = getBarColor P i ki,
                   br_rx = (if bc_rounded P then bc_barRadius P else Fin 0) \<rparr> #
           groupedBars_loop P i (Suc ki) (Suc activeIndex) keys)"

definition bar_gradientFill :: "barProps \<Rightarrow> nat \<Rightarrow> string" where
  "bar_gradientFill P i =
     (if bc_variant P = BarGradient then ''url(#bar-gradient-'' @ bc_color P @ '')''
      else getBarColor P i 0)"

text \<open>\<open>item[yKeys[0]] || 0\<close>; with no key at all the property read is \<open>"undefined"\<close>.\<close>

definition bar_firstValue :: "barProps \<Rightarrow> dataPoint \<Rightarrow> jsnum" where
  "bar_firstValue P item =
     (case bar_yKeys P of [] \<Rightarrow> or0 (field item ''undefined'') | k # ks \<Rightarrow> or0 (field item k))"

text \<open>\<open>renderBars\<close>: for each data item the rectangles drawn for it.\<close>

definition bar_renderBars :: "barProps \<Rightarrow> barRect option list list" where
  "bar_renderBars P =
     map (\<lambda>i.
       if bar_isHorizontal P then
         (let y = jadd (jadd (bar_barGap P) (jmul (num i) (jadd (bar_totalBarWidth P) (bar_barGap P))))
                       (bar_barOffset P);
              value = bar_firstValue P (bc_data P ! i);
              barLength = jmul (jmul (jdiv value (bar_maxValue P)) (bar_chartWidth P))
                               (bc_animationProgress P)
          in [Some \<lparr> br_x = bar_chartX P, br_y = y, br_width = barLength,
                      br_height = bar_actualBarWidth P, br_fill = bar_gradientFill P i,
                      br_rx = (if bc_rounded P then bc_barRadius P else Fin 0) \<rparr>])
       else if bc_variant P = BarStacked \<and> bar_isMultiSeries P then
         stackedBars_loop P i 0 (Fin 0) (bar_yKeys P)
       else if bc_variant P = Grouped \<and> bar_isMultiSeries P then
         groupedBars_loop P i 0 0 (bar_yKeys P)
       else
         (let value = bar_firstValue P (bc_data P ! i);
              barHeight = bar_barHeight P value
          in [Some \<lparr> br_x = bar_x P i, br_y = jsub (bar_chartHeight P) barHeight,
                      br_width = bar_actualBarWidth P, br_height = barHeight,
                      br_fill = bar_gradientFill P i,
                      br_rx = (if bc_rounded P then bc_barRadius P else Fin 0) \<rparr>]))
     [0 ..< length (bc_data P)]"

section \<open>PieChart\<close>

datatype pieVariant = PieDefault | Donut | Semi | Rose | Exploded

datatype legendPosition = LegendTop | LegendBottom | LegendLeft | LegendRight

record pieProps =
  pc_data :: "dataPoint list"
  pc_valueKey :: string
  pc_variant :: pieVariant
  pc_color :: string
  pc_donutWidth :: jsnum
  pc_width :: jsnum
  pc_height :: jsnum
  pc_showLegend :: bool
  pc_legendPosition :: legendPosition
  pc_animationProgress :: jsnum
  pc_hiddenSlices :: "nat set"

definition Math_PI :: jsnum where
  "Math_PI = Fin pi"

fun Math_cos :: "jsnum \<Rightarrow> jsnum" where
  "Math_cos (Fin a) = Fin (cos a)"
| "Math_cos PInf = NaN"
| "Math_cos NInf = NaN"
| "Math_cos NaN = NaN"

fun Math_sin :: "jsnum \<Rightarrow> jsnum" where
  "Math_sin (Fin a) = Fin (sin a)"
| "Math_sin PInf = NaN"
| "Math_sin NInf = NaN"
| "Math_sin NaN = NaN"

definition pie_visibleData :: "pieProps \<Rightarrow> dataPoint list" where
  "pie_visibleData P = filterVisible (pc_hiddenSlices P) (pc_data P)"

definition pie_total :: "pieProps \<Rightarrow> jsnum" where
  "pie_total P = foldl (\<lambda>sum d. jadd sum (or0 (field d (pc_valueKey P)))) (Fin 0) (pie_visibleData P)"

definition pie_isSemi :: "pieProps \<Rightarrow> bool" where
  "pie_isSemi P = (pc_variant P = Semi)"

definition pie_isDonut :: "pieProps \<Rightarrow> bool" where
  "pie_isDonut P = (pc_variant P = Donut)"

definition pie_isRose :: "pieProps \<Rightarrow> bool" where
  "pie_isRose P = (pc_variant P = Rose)"

definition pie_isExploded :: "pieProps \<Rightarrow> bool" where
  "pie_isExploded P = (pc_variant P = Exploded)"

definition pie_isLegendSide :: "pieProps \<Rightarrow> bool" where
  "pie_isLegendSide P =
     (pc_showLegend P \<and> (pc_legendPosition P = LegendLeft \<or> pc_legendPosition P = LegendRight))"

definition pie_legendSideWidth :: "pieProps \<Rightarrow> jsnum" where
  "pie_legendSideWidth P = (if pie_isLegendSide P then Fin 120 else Fin 0)"

definition pie_effectiveWidth :: "pieProps \<Rightarrow> jsnum" where
  "pie_effectiveWidth P =
     (if pie_isLegendSide P then jmax (jsub (pc_width P) (pie_legendSideWidth P)) (Fin 100)
      else pc_width P)"

definition pie_effectiveHeight :: "pieProps \<Rightarrow> jsnum" where
  "pie_effectiveHeight P =
     (if pie_isLegendSide P then jmin (pc_height P) (pie_effectiveWidth P) else pc_height P)"

definition pie_legendHeight :: "pieProps \<Rightarrow> jsnum" where
  "pie_legendHeight P =
     (if pc_showLegend P \<and> (pc_legendPosition P = LegendBottom \<or> pc_legendPosition P = LegendTop)
      then Fin 50 else Fin 0)"

definition pie_centerX :: "pieProps \<Rightarrow> jsnum" where
  "pie_centerX P = jdiv (pie_effectiveWidth P) (Fin 2)"

definition pie_centerY :: "pieProps \<Rightarrow> jsnum" where
  "pie_centerY P =
     (if pie_isSemi P then jsub (pie_effectiveHeight P) (Fin 20)
      else if pc_showLegend P \<and> pc_legendPosition P = LegendBottom
           then jdiv (jsub (pie_effectiveHeight P) (pie_legendHeight P)) (Fin 2)
           else jdiv (pie_effectiveHeight P) (Fin 2))"

definition pie_basePadding :: "pieProps \<Rightarrow> jsnum" where
  "pie_basePadding P = (if pie_isExploded P then Fin 25 else Fin 15)"

definition pie_baseRadius :: "pieProps \<Rightarrow> jsnum" where
  "pie_baseRadius P =
     jsub (jmin (pie_centerX P)
                (if pie_isSemi P then jsub (pie_effectiveHeight P) (Fin 40)
                 else if pc_showLegend P \<and> pc_legendPosition P = LegendBottom
                      then jdiv (jsub (pie_effectiveHeight P) (pie_legendHeight P)) (Fin 2)
                      else pie_centerY P))
          (pie_basePadding P)"

definition pie_innerRadius :: "pieProps \<Rightarrow> jsnum" where
  "pie_innerRadius P = (if pie_isDonut P then jsub (pie_baseRadius P) (pc_donutWidth P) else Fin 0)"

text \<open>
  \<open>getSliceColor(index)\<close>: \<open>step = Math.max(1, Math.floor(palette.length / data.length))\<close>,
  \<open>palette[Math.min(index * step, palette.length - 1)]\<close>. With no data the step is infinite
  and index 0 reads \<open>palette[NaN]\<close>, which is \<open>undefined\<close> (None).
\<close>

definition getSliceColor :: "pieProps \<Rightarrow> nat \<Rightarrow> string option" where
  "getSliceColor P index =
     (let palette = paletteOf (pc_color P) in
      if length (pc_data P) = 0 then
        (if index = 0 then None else Some (palette ! (length palette - 1)))
      else
        let step = max 1 (length palette div length (pc_data P));
            colorIndex = min (index * step) (length palette - 1)
        in Some (palette ! colorIndex))"

record slice =
  sl_item :: dataPoint
  sl_value :: jsnum
  sl_percentage :: jsnum
  sl_startAngle :: jsnum
  sl_endAngle :: jsnum
  sl_midAngle :: jsnum
  sl_color :: "string option"
  sl_radius :: jsnum
  sl_offsetX :: jsnum
  sl_offsetY :: jsnum
  sl_hidden :: bool

definition pie_totalAngle :: "pieProps \<Rightarrow> jsnum" where
  "pie_totalAngle P = (if pie_isSemi P then Math_PI else jmul (Fin 2) Math_PI)"

definition pie_startAngle :: "pieProps \<Rightarrow> jsnum" where
  "pie_startAngle P = (if pie_isSemi P then jneg Math_PI else jdiv (jneg Math_PI) (Fin 2))"

definition pie_roseMaxValue :: "pieProps \<Rightarrow> jsnum" where
  "pie_roseMaxValue P =
     (if pie_isRose P then Math_max (map (\<lambda>d. or0 (field d (pc_valueKey P))) (pie_visibleData P))
      else Fin 0)"

text \<open>
  \<open>slices\<close>: the map over \<open>data\<close> with the running \<open>currentAngle\<close>. A hidden slice gets a
  zero span at the current angle and leaves it alone.
\<close>

fun slices_loop :: "pieProps \<Rightarrow> nat \<Rightarrow> jsnum \<Rightarrow> dataPoint list \<Rightarrow> slice list" where
  "slices_loop P i currentAngle [] = []"
| "slices_loop P i currentAngle (item # items) =
     (if i \<in> pc_hiddenSlices P then
        \<lparr> sl_item = item, sl_value = Fin 0, sl_percentage = Fin 0,
          sl_startAngle = currentAngle, sl_endAngle = currentAngle, sl_midAngle = currentAngle,
          sl_color = getSliceColor P i, sl_radius = Fin 0, sl_offsetX = Fin 0, sl_offsetY = Fin 0,
          sl_hidden = True \<rparr> #
        slices_loop P (Suc i) currentAngle items
      else
        let value = or0 (field item (pc_valueKey P));
            angle = (if jgt (pie_total P) (Fin 0)
                     then jmul (jmul (jdiv value (pie_total P)) (pie_totalAngle P)) (pc_animationProgress P)
                     else Fin 0);
            sliceStartAngle = currentAngle;
            sliceEndAngle = jadd currentAngle angle;
            radius = (if pie_isRose P
                      then jadd (pie_innerRadius P)
                                (jmul (jsub (pie_baseRadius P) (pie_innerRadius P))
                                      (if jgt (pie_roseMaxValue P) (Fin 0)
                                       then jdiv value (pie_roseMaxValue P) else Fin 0))
                      else pie_baseRadius P);
            midAngle = jdiv (jadd sliceStartAngle sliceEndAngle) (Fin 2);
            explodeOffset = (if pie_isExploded P then Fin 10 else Fin 0);
            offsetX = jmul (Math_cos midAngle) explodeOffset;
            offsetY = jmul (Math_sin midAngle) explodeOffset
        in \<lparr> sl_item = item, sl_value = value,
              sl_percentage = (if jgt (pie_total P) (Fin 0)
                               then jmul (jdiv value (pie_total P)) (Fin 100) else Fin 0),
              sl_startAngle = sliceStartAngle, sl_endAngle = sliceEndAngle, sl_midAngle = midAngle,
              sl_color = getSliceColor P i, sl_radius = radius,
              sl_offsetX = offsetX, sl_offsetY = offsetY, sl_hidden = False \<rparr> #
           slices_loop P (Suc i) sliceEndAngle items)"

definition slices :: "pieProps \<Rightarrow> slice list" where
  "slices P = slices_loop P 0 (pie_startAngle P) (pc_data P)"






section \<open>The curve as the specification words it\<close>

text \<open>
  The secant slope between two points, the tangent at a point (the secant at an endpoint;
  inside, zero when the two secants have opposite sign and their harmonic mean otherwise,
  in the arithmetic of JavaScript numbers) and the cubic segment between two consecutive
  points, with control points at one third and two thirds of the horizontal span.
\<close>

definition spec_secant :: "'a xy_scheme \<Rightarrow> 'a xy_scheme \<Rightarrow> jsnum" where
  "spec_secant p q = jdiv (jsub (pt_y q) (pt_y p)) (jsub (pt_x q) (pt_x p))"

definition opposite_sign :: "jsnum \<Rightarrow> jsnum \<Rightarrow> bool" where
  "opposite_sign a b = ((jlt a (Fin 0) \<and> jlt (Fin 0) b) \<or> (jlt (Fin 0) a \<and> jlt b (Fin 0)))"

definition harmonic_mean :: "jsnum \<Rightarrow> jsnum \<Rightarrow> jsnum" where
  "harmonic_mean a b = jdiv (Fin 2) (jadd (jdiv (Fin 1) a) (jdiv (Fin 1) b))"

definition spec_tangent :: "('a xy_scheme) list \<Rightarrow> nat \<Rightarrow> jsnum" where
  "spec_tangent ps i =
     (if i = 0 then spec_secant (ps ! 0) (ps ! 1)
      else if i = length ps - 1 then spec_secant (ps ! (i - 1)) (ps ! i)
      else if opposite_sign (spec_secant (ps ! (i - 1)) (ps ! i)) (spec_secant (ps ! i) (ps ! (i + 1)))
           then Fin 0
           else harmonic_mean (spec_secant (ps ! (i - 1)) (ps ! i)) (spec_secant (ps ! i) (ps ! (i + 1))))"

definition spec_bezier :: "('a xy_scheme) list \<Rightarrow> nat \<Rightarrow> pathCmd" where
  "spec_bezier ps i =
     (let p = ps ! i; q = ps ! (i + 1);
          third = jdiv (jsub (pt_x q) (pt_x p)) (Fin 3)
      in CurveTo (jadd (pt_x p) third)
                 (jadd (pt_y p) (jmul (spec_tangent ps i) third))
                 (jadd (pt_x p) (jmul (Fin 2) third))
                 (jsub (pt_y q) (jmul (spec_tangent ps (i + 1)) third))
                 (pt_x q) (pt_y q))"

text \<open>An angle given in degrees, as a JavaScript number of radians.\<close>

definition deg :: "real \<Rightarrow> jsnum" where
  "deg d = Fin (d * pi / 180)"

text \<open>
  The snapped index as the specification words it: the horizontal offset divided by the
  step width, rounded to the nearest integer (a tie upwards) and clamped to \<open>[0, n - 1]\<close>.
\<close>

definition spec_snapIndex :: "nat \<Rightarrow> real \<Rightarrow> real \<Rightarrow> real \<Rightarrow> int" where
  "spec_snapIndex n chartX chartWidth mouseX =
     max 0 (min \<lfloor>(mouseX - chartX) / (chartWidth / real (max (n - 1) 1)) + 1 / 2\<rfloor> (int n - 1))"

text \<open>
  Notions for stating the stacking properties: the sum of a list of numbers from left to
  right, the raw value \<open>item[key] || 0\<close> of series \<open>kj\<close> at data index \<open>i\<close>, the visible series
  below a series, the \<open>stackedValues\<close> array after one more series, and the entry and the
  bar segment a loop produces from its running state.
\<close>

definition jsum :: "jsnum list \<Rightarrow> jsnum" where
  "jsum xs = foldl jadd (Fin 0) xs"

definition area_rawValue :: "areaProps \<Rightarrow> nat \<Rightarrow> nat \<Rightarrow> jsnum" where
  "area_rawValue P i kj = or0 (field (ac_data P ! i) (area_yKeys P ! kj))"

definition area_visibleBelow :: "areaProps \<Rightarrow> nat \<Rightarrow> nat list" where
  "area_visibleBelow P ki = filter (\<lambda>kj. kj \<notin> ac_hiddenSeries P) [0 ..< ki]"

definition stackAdd :: "areaProps \<Rightarrow> jsnum list \<Rightarrow> nat \<Rightarrow> jsnum list" where
  "stackAdd P sv kj =
     map (\<lambda>i. jadd (sv ! i) (or0 (field (ac_data P ! i) (area_yKeys P ! kj)))) [0 ..< length (ac_data P)]"

definition stackedEntry :: "areaProps \<Rightarrow> jsnum list \<Rightarrow> nat \<Rightarrow> seriesEntry" where
  "stackedEntry P sv ki =
     (if ki \<in> ac_hiddenSeries P
      then \<lparr> se_key = area_yKeys P ! ki, se_points = [], se_index = ki, se_hidden = True \<rparr>
      else \<lparr> se_key = area_yKeys P ! ki, se_points = area_getPoints P (area_yKeys P ! ki) (Some sv),
             se_index = ki, se_hidden = False \<rparr>)"

definition bar_segHeight :: "barProps \<Rightarrow> nat \<Rightarrow> nat \<Rightarrow> jsnum" where
  "bar_segHeight P i kj = bar_barHeight P (or0 (field (bc_data P ! i) (bar_yKeys P ! kj)))"

definition bar_visibleBelow :: "barProps \<Rightarrow> nat \<Rightarrow> nat list" where
  "bar_visibleBelow P ki = filter (\<lambda>kj. kj \<notin> bc_hiddenSeries P) [0 ..< ki]"

definition stackedRect :: "barProps \<Rightarrow> nat \<Rightarrow> jsnum \<Rightarrow> nat \<Rightarrow> barRect option" where
  "stackedRect P i currentY ki =
     (if ki \<in> bc_hiddenSeries P then None
      else Some \<lparr> br_x = bar_x P i,
                  br_y = jsub (jsub (bar_chartHeight P) currentY) (bar_segHeight P i ki),
                  br_width = bar_actualBarWidth P, br_height = bar_segHeight P i ki,
                  br_fill = getBarColor P i ki,
                  br_rx = (if Some ki = bar_lastVisibleKeyIndex P \<and> bc_rounded P
                           then bc_barRadius P else Fin 0) \<rparr>)"

text \<open>
  Notions for stating the pie properties: the real value of a finite number, the items
  whose index (counted from \<open>i\<close>) is not hidden, a list of slices each starting where the
  previous one ends, the angular span of a slice, and the slices that are drawn
  (\<open>slices.filter(s => !s.hidden)\<close>).
\<close>

fun realOf :: "jsnum \<Rightarrow> real" where
  "realOf (Fin a) = a"
| "realOf PInf = 0"
| "realOf NInf = 0"
| "realOf NaN = 0"

fun visItems :: "nat set \<Rightarrow> nat \<Rightarrow> 'a list \<Rightarrow> 'a list" where
  "visItems H i [] = []"
| "visItems H i (d # ds) = (if i \<in> H then visItems H (Suc i) ds else d # visItems H (Suc i) ds)"

fun contiguous :: "jsnum \<Rightarrow> slice list \<Rightarrow> bool" where
  "contiguous cur [] = True"
| "contiguous cur (s # ss) = (sl_startAngle s = cur \<and> contiguous (sl_endAngle s) ss)"

definition sl_span :: "slice \<Rightarrow> jsnum" where
  "sl_span s = jsub (sl_endAngle s) (sl_startAngle s)"

definition visibleSlices :: "pieProps \<Rightarrow> slice list" where
  "visibleSlices P = filter (\<lambda>s. \<not> sl_hidden s) (slices P)"

text \<open>
  Notions for stating how missing fields are treated: a data item with every
  \<open>undefined\<close> or \<open>null\<close> field replaced by the number 0, and the numbers carried by a point
  and by a series entry (all of a point but its reference to the source item).
\<close>

definition fillMissing :: "dataPoint \<Rightarrow> dataPoint" where
  "fillMissing d =
     (\<lambda>k. Some (case field d k of Undefined \<Rightarrow> Num (Fin 0) | Null \<Rightarrow> Num (Fin 0) | Num a \<Rightarrow> Num a))"

definition coords :: "areaPoint \<Rightarrow> jsnum \<times> jsnum \<times> jsnum \<times> jsnum" where
  "coords p = (pt_x p, pt_y p, pt_value p, pt_stackedBase p)"

definition entryCoords :: "seriesEntry \<Rightarrow> string \<times> (jsnum \<times> jsnum \<times> jsnum \<times> jsnum) list \<times> nat \<times> bool" where
  "entryCoords e = (se_key e, map coords (se_points e), se_index e, se_hidden e)"

section \<open>Properties\<close>

lemmas js_defs = jsub_def jmax_def jmin_def jor_def truthy_def num_def jgt_def jle_def
  Math_max_def Math_min_def

lemmas spark_defs = spark_points_def spark_getY_def spark_range_def spark_maxValue_def
  spark_minValue_def spark_padding_def

lemmas area_defs = area_getPoints_def area_indexX_def area_valueY_def area_valueRange_def
  area_maxValue_def area_minValue_def area_chartX_def area_chartY_def area_chartWidth_def
  area_chartHeight_def topPadding_def area_yKeys_def area_visibleYKeys_def area_isStacked_def
  area_isMultiSeries_def filterVisible_def field_def

subsection \<open>The curved line path\<close>

lemma length_slice0_le: "length (slice0 k xs) \<le> length xs"
  by (cases k) auto

lemma length_visiblePrefix_le: "length (visiblePrefix p xs) \<le> length xs"
  by (simp add: visiblePrefix_def length_slice0_le)

lemma is_fin_iff: "is_fin a \<longleftrightarrow> (\<exists>r. a = Fin r)"
  by (cases a) auto

lemma secant_fin:
  assumes "is_fin (pt_x p)" "is_fin (pt_y p)" "is_fin (pt_x q)" "is_fin (pt_y q)"
    and "jlt (pt_x p) (pt_x q)"
  shows "\<exists>s. spec_secant p q = Fin s"
  using assms by (auto simp: is_fin_iff spec_secant_def jsub_def)

lemma harmonic_zero: "a * b = 0 \<Longrightarrow> harmonic_mean (Fin a) (Fin b) = Fin 0"
  by (auto simp: harmonic_mean_def)

text \<open>The test \<open>slopeLeft * slopeRight <= 0\<close> also catches a zero slope, where the
  harmonic mean is zero as well.\<close>

lemma tangent_choice:
  "(if jle (jmul (Fin a) (Fin b)) (Fin 0) then Fin 0 else harmonic_mean (Fin a) (Fin b))
   = (if opposite_sign (Fin a) (Fin b) then Fin 0 else harmonic_mean (Fin a) (Fin b))"
proof (cases "a * b = 0")
  case True
  then have "jle (jmul (Fin a) (Fin b)) (Fin 0)" by (simp add: jle_def)
  then show ?thesis using True by (simp add: harmonic_zero)
next
  case False
  then have "jle (jmul (Fin a) (Fin b)) (Fin 0) = (a * b < 0)"
    by (simp add: jle_def)
  moreover have "opposite_sign (Fin a) (Fin b) = (a * b < 0)"
    by (auto simp: opposite_sign_def mult_less_0_iff)
  ultimately show ?thesis by simp
qed

lemma tangentAt_spec:
  assumes n: "3 \<le> length vs" and i: "i < length vs"
    and fin: "\<forall>p \<in> set vs. is_fin (pt_x p) \<and> is_fin (pt_y p)"
    and inc: "\<forall>j. Suc j < length vs \<longrightarrow> jlt (pt_x (vs ! j)) (pt_x (vs ! Suc j))"
  shows "tangentAt vs i = spec_tangent vs i"
proof -
  consider "i = 0" | "i \<noteq> 0" "i = length vs - 1" | "i \<noteq> 0" "i \<noteq> length vs - 1" by blast
  then show ?thesis
  proof cases
    case 1
    then show ?thesis by (simp add: tangentAt_def spec_tangent_def spec_secant_def)
  next
    case 2
    then have "length vs - 2 = i - 1" by simp
    with 2 show ?thesis by (simp add: tangentAt_def spec_tangent_def spec_secant_def Let_def)
  next
    case 3
    define sl where "sl = spec_secant (vs ! (i - 1)) (vs ! i)"
    define sr where "sr = spec_secant (vs ! i) (vs ! (i + 1))"
    from 3 i have lt: "Suc (i - 1) < length vs" "Suc i < length vs" and eq: "Suc (i - 1) = i"
      by auto
    have f: "\<And>k. k < length vs \<Longrightarrow> is_fin (pt_x (vs ! k)) \<and> is_fin (pt_y (vs ! k))"
      using fin by simp
    have "jlt (pt_x (vs ! (i - 1))) (pt_x (vs ! i))" using inc lt(1) eq by metis
    then obtain a where a: "sl = Fin a"
      unfolding sl_def using secant_fin f i lt by (metis Suc_lessD)
    have "jlt (pt_x (vs ! i)) (pt_x (vs ! (i + 1)))" using inc lt(2) by simp
    then obtain b where b: "sr = Fin b"
      unfolding sr_def using secant_fin f i lt by (metis Suc_eq_plus1)
    have code: "tangentAt vs i =
        (if jle (jmul sl sr) (Fin 0) then Fin 0 else harmonic_mean sl sr)"
      using 3 by (simp add: tangentAt_def Let_def spec_secant_def harmonic_mean_def sl_def sr_def)
    have spec: "spec_tangent vs i = (if opposite_sign sl sr then Fin 0 else harmonic_mean sl sr)"
      using 3 by (simp add: spec_tangent_def sl_def sr_def)
    show ?thesis unfolding code spec a b by (rule tangent_choice)
  qed
qed

lemma bezier_spec:
  assumes n: "3 \<le> length vs" and i: "Suc i < length vs"
    and fin: "\<forall>p \<in> set vs. is_fin (pt_x p) \<and> is_fin (pt_y p)"
    and inc: "\<forall>j. Suc j < length vs \<longrightarrow> jlt (pt_x (vs ! j)) (pt_x (vs ! Suc j))"
  shows "bezierSegment vs (map (tangentAt vs) [0 ..< length vs]) i = spec_bezier vs i"
proof -
  have t0: "map (tangentAt vs) [0 ..< length vs] ! i = spec_tangent vs i"
    using i tangentAt_spec[OF n _ fin inc, of i] by simp
  have t1: "map (tangentAt vs) [0 ..< length vs] ! (i + 1) = spec_tangent vs (i + 1)"
    using i tangentAt_spec[OF n _ fin inc, of "i + 1"] by simp
  obtain x0 x1 where x: "pt_x (vs ! i) = Fin x0" "pt_x (vs ! (i + 1)) = Fin x1"
    using fin i by (metis Suc_eq_plus1 Suc_lessD is_fin_iff nth_mem)
  have "jsub (Fin x1) (jdiv (jsub (Fin x1) (Fin x0)) (Fin 3))
      = jadd (Fin x0) (jmul (Fin 2) (jdiv (jsub (Fin x1) (Fin x0)) (Fin 3)))"
    by (simp add: jsub_def field_simps)
  then show ?thesis
    unfolding bezierSegment_def spec_bezier_def Let_def t0 t1 x by simp
qed

text \<open>
  C1. With the curved variant, at least three visible points, finite coordinates and
  strictly increasing x, the generated line path is a move to the first point followed,
  for each consecutive pair of points, by the cubic segment of the specification: control
  points at one third and two thirds of the horizontal span, offset vertically by the
  tangent times a third of the span, where the tangent is the adjacent secant slope at an
  endpoint and, inside, zero for secants of opposite sign and their harmonic mean
  otherwise.
\<close>

theorem curved_path_spec:
  assumes "ac_variant P = Curved"
    and vs: "vs = visiblePrefix (ac_animationProgress P) pts"
    and n: "3 \<le> length vs"
    and fin: "\<forall>p \<in> set vs. is_fin (pt_x p) \<and> is_fin (pt_y p)"
    and inc: "\<forall>j. Suc j < length vs \<longrightarrow> jlt (pt_x (vs ! j)) (pt_x (vs ! Suc j))"
  shows "area_generateLinePath P pts (area_smoothDefault P)
         = Inr (MoveTo (pt_x (vs ! 0)) (pt_y (vs ! 0)) # map (spec_bezier vs) [0 ..< length vs - 1])"
proof -
  have len: "\<not> length pts < 2"
    using n length_visiblePrefix_le[of "ac_animationProgress P" pts] vs by simp
  have seg: "monotoneSegments vs = map (spec_bezier vs) [0 ..< length vs - 1]"
    unfolding monotoneSegments_def Let_def
    by (rule map_cong) (auto simp: bezier_spec[OF n _ fin inc])
  show ?thesis
    using assms(1) len n seg
    by (simp add: area_generateLinePath_def area_smoothDefault_def Let_def vs[symmetric])
qed

theorem curved_path_spec_witness:
  "area_generateLinePath
     \<lparr> ac_data = [], ac_yKey = OneKey ''value'', ac_variant = Curved, ac_color = ''violet'',
       ac_showGrid = True, ac_showLine = True, ac_width = Fin 400, ac_height = Fin 300,
       ac_showXAxis = True, ac_showYAxis = True, ac_yAxisWidth = Fin 50, ac_xAxisHeight = Fin 30,
       ac_animationProgress = Fin 1, ac_hiddenSeries = {} \<rparr>
     [\<lparr>pt_x = Fin 0, pt_y = Fin 0\<rparr>, \<lparr>pt_x = Fin 3, pt_y = Fin 3\<rparr>,
      \<lparr>pt_x = Fin 6, pt_y = Fin 9\<rparr>, \<lparr>pt_x = Fin 9, pt_y = Fin 9\<rparr>]
     True
   = Inr [MoveTo (Fin 0) (Fin 0),
          CurveTo (Fin 1) (Fin 1) (Fin 2) (Fin (5 / 3)) (Fin 3) (Fin 3),
          CurveTo (Fin 4) (Fin (13 / 3)) (Fin 5) (Fin 9) (Fin 6) (Fin 9),
          CurveTo (Fin 7) (Fin 9) (Fin 8) (Fin 9) (Fin 9) (Fin 9)]"
proof -
  let ?P = "\<lparr> ac_data = [], ac_yKey = OneKey ''value'', ac_variant = Curved, ac_color = ''violet'',
       ac_showGrid = True, ac_showLine = True, ac_width = Fin 400, ac_height = Fin 300,
       ac_showXAxis = True, ac_showYAxis = True, ac_yAxisWidth = Fin 50, ac_xAxisHeight = Fin 30,
       ac_animationProgress = Fin 1, ac_hiddenSeries = {} \<rparr>"
  let ?pts = "[\<lparr>pt_x = Fin 0, pt_y = Fin 0\<rparr>, \<lparr>pt_x = Fin 3, pt_y = Fin 3\<rparr>,
      \<lparr>pt_x = Fin 6, pt_y = Fin 9\<rparr>, \<lparr>pt_x = Fin 9, pt_y = Fin 9\<rparr>]"
  have h1: "ac_variant ?P = Curved" by simp
  have h2: "?pts = visiblePrefix (ac_animationProgress ?P) ?pts"
    by (simp add: visiblePrefix_def js_defs)
  have h3: "3 \<le> length ?pts" by simp
  have h4: "\<forall>p \<in> set ?pts. is_fin (pt_x p) \<and> is_fin (pt_y p)" by simp
  have h5: "\<forall>j. Suc j < length ?pts \<longrightarrow> jlt (pt_x (?pts ! j)) (pt_x (?pts ! Suc j))"
    by (simp add: less_Suc_eq nth_Cons' numeral_eq_Suc)
  show ?thesis
    using curved_path_spec[OF h1 h2 h3 h4 h5]
    by (simp add: area_smoothDefault_def spec_bezier_def spec_tangent_def spec_secant_def
        opposite_sign_def harmonic_mean_def js_defs upt_rec Let_def)
qed

subsection \<open>Single points, zero ranges and empty data\<close>

text \<open>
  C2. SparklineChart divides the index by \<open>data.length - 1\<close> with no guard: for the
  one-element data \<open>[5]\<close> the x coordinate of its point is NaN. AreaChart's \<open>getPoints\<close>
  divides by \<open>Math.max(data.length - 1, 1)\<close> and maps its single point to \<open>chartX\<close>.
\<close>

theorem sparkline_single_point_x:
  "map pt_x (spark_points \<lparr> sp_data = [Fin 5], sp_width = Fin 100, sp_height = Fin 30,
                            sp_animationProgress = Fin 1 \<rparr>) = [NaN]
   \<and> map pt_x (area_getPoints
       \<lparr> ac_data = [[''value'' \<mapsto> Num (Fin 5)]], ac_yKey = OneKey ''value'', ac_variant = Curved,
         ac_color = ''violet'', ac_showGrid = True, ac_showLine = True, ac_width = Fin 400,
         ac_height = Fin 300, ac_showXAxis = True, ac_showYAxis = True, ac_yAxisWidth = Fin 50,
         ac_xAxisHeight = Fin 30, ac_animationProgress = Fin 1, ac_hiddenSeries = {} \<rparr>
       ''value'' None) = [Fin 50]"
  by (simp add: js_defs spark_defs area_defs Let_def)

text \<open>
  C3. AreaChart fixes \<open>minValue\<close> at 0 and divides by \<open>valueRange = maxValue - minValue\<close>
  with no guard: for all-zero data the range is 0 and every y coordinate is NaN.
  SparklineChart replaces a zero range by 1 and maps the same values to a finite pixel.
\<close>

theorem area_zero_range_y:
  "map pt_y (area_getPoints
       \<lparr> ac_data = [[''value'' \<mapsto> Num (Fin 0)], [''value'' \<mapsto> Num (Fin 0)]],
         ac_yKey = OneKey ''value'', ac_variant = Curved,
         ac_color = ''violet'', ac_showGrid = True, ac_showLine = True, ac_width = Fin 400,
         ac_height = Fin 300, ac_showXAxis = True, ac_showYAxis = True, ac_yAxisWidth = Fin 50,
         ac_xAxisHeight = Fin 30, ac_animationProgress = Fin 1, ac_hiddenSeries = {} \<rparr>
       ''value'' None) = [NaN, NaN]
   \<and> map pt_y (spark_points \<lparr> sp_data = [Fin 0, Fin 0], sp_width = Fin 100, sp_height = Fin 30,
                              sp_animationProgress = Fin 1 \<rparr>) = [Fin 27, Fin 27]"
  by (simp add: js_defs spark_defs area_defs upt_rec Let_def)

text \<open>
  C7. For an empty data array AreaChart renders without throwing and its area and line
  paths are empty, and SparklineChart returns nothing; but AreaChart's \<open>maxValue\<close> is
  \<open>Math.max() * 1.1 = -Infinity\<close>, and every tick of its y axis is placed at a NaN pixel,
  for its label and for its grid line.
\<close>

theorem area_empty_data_ticks:
  "area_renderAreas
     \<lparr> ac_data = [], ac_yKey = OneKey ''value'', ac_variant = Curved, ac_color = ''violet'',
       ac_showGrid = True, ac_showLine = True, ac_width = Fin 400, ac_height = Fin 300,
       ac_showXAxis = True, ac_showYAxis = True, ac_yAxisWidth = Fin 50, ac_xAxisHeight = Fin 30,
       ac_animationProgress = Fin 1, ac_hiddenSeries = {} \<rparr>
   = Inr [\<lparr> rs_key = ''value'', rs_index = 0, rs_color = ''#7c3aed'', rs_areaPath = [],
            rs_linePath = Some [] \<rparr>]
   \<and> area_renderYAxis
     \<lparr> ac_data = [], ac_yKey = OneKey ''value'', ac_variant = Curved, ac_color = ''violet'',
       ac_showGrid = True, ac_showLine = True, ac_width = Fin 400, ac_height = Fin 300,
       ac_showXAxis = True, ac_showYAxis = True, ac_yAxisWidth = Fin 50, ac_xAxisHeight = Fin 30,
       ac_animationProgress = Fin 1, ac_hiddenSeries = {} \<rparr>
   = Some [\<lparr>tick_value = NaN, tick_textY = NaN, tick_lineY = Some NaN\<rparr>,
           \<lparr>tick_value = NInf, tick_textY = NaN, tick_lineY = Some NaN\<rparr>,
           \<lparr>tick_value = NInf, tick_textY = NaN, tick_lineY = Some NaN\<rparr>,
           \<lparr>tick_value = NInf, tick_textY = NaN, tick_lineY = Some NaN\<rparr>,
           \<lparr>tick_value = NInf, tick_textY = NaN, tick_lineY = Some NaN\<rparr>]
   \<and> SparklineChart \<lparr> sp_data = [], sp_width = Fin 100, sp_height = Fin 30,
                        sp_animationProgress = Fin 1 \<rparr> = None"
proof (intro conjI)
  show "area_renderAreas
     \<lparr> ac_data = [], ac_yKey = OneKey ''value'', ac_variant = Curved, ac_color = ''violet'',
       ac_showGrid = True, ac_showLine = True, ac_width = Fin 400, ac_height = Fin 300,
       ac_showXAxis = True, ac_showYAxis = True, ac_yAxisWidth = Fin 50, ac_xAxisHeight = Fin 30,
       ac_animationProgress = Fin 1, ac_hiddenSeries = {} \<rparr>
   = Inr [\<lparr> rs_key = ''value'', rs_index = 0, rs_color = ''#7c3aed'', rs_areaPath = [],
            rs_linePath = Some [] \<rparr>]"
    by (simp add: area_renderAreas_def area_renderSeries_def area_allPoints_def
      area_generateAreaPath_def area_generateLinePath_def area_smoothDefault_def
      getAreaColor_def getColor_def paletteOf_def colorPalettes_def
      area_defs js_defs Let_def)
  show "area_renderYAxis
     \<lparr> ac_data = [], ac_yKey = OneKey ''value'', ac_variant = Curved, ac_color = ''violet'',
       ac_showGrid = True, ac_showLine = True, ac_width = Fin 400, ac_height = Fin 300,
       ac_showXAxis = True, ac_showYAxis = True, ac_yAxisWidth = Fin 50, ac_xAxisHeight = Fin 30,
       ac_animationProgress = Fin 1, ac_hiddenSeries = {} \<rparr>
   = Some [\<lparr>tick_value = NaN, tick_textY = NaN, tick_lineY = Some NaN\<rparr>,
           \<lparr>tick_value = NInf, tick_textY = NaN, tick_lineY = Some NaN\<rparr>,
           \<lparr>tick_value = NInf, tick_textY = NaN, tick_lineY = Some NaN\<rparr>,
           \<lparr>tick_value = NInf, tick_textY = NaN, tick_lineY = Some NaN\<rparr>,
           \<lparr>tick_value = NInf, tick_textY = NaN, tick_lineY = Some NaN\<rparr>]"
    by (simp add: area_renderYAxis_def js_defs area_defs upt_rec)
  show "SparklineChart \<lparr> sp_data = [], sp_width = Fin 100, sp_height = Fin 30,
                        sp_animationProgress = Fin 1 \<rparr> = None"
    by (simp add: SparklineChart_def)
qed

subsection \<open>Pie slices\<close>

text \<open>
  C8. For the two values 50 and 50, no hidden slice, the default variant and animation
  progress 1, slice 0 runs from -90 to 90 degrees, slice 1 from 90 to 270 degrees, and
  each has percentage 50.
\<close>

theorem pie_two_equal_slices:
  "map (\<lambda>s. (sl_startAngle s, sl_endAngle s, sl_percentage s))
     (slices \<lparr> pc_data = [[''value'' \<mapsto> Num (Fin 50)], [''value'' \<mapsto> Num (Fin 50)]],
               pc_valueKey = ''value'', pc_variant = PieDefault, pc_color = c, pc_donutWidth = dw,
               pc_width = w, pc_height = h, pc_showLegend = sl, pc_legendPosition = lp,
               pc_animationProgress = Fin 1, pc_hiddenSlices = {} \<rparr>)
   = [(deg (-90), deg 90, Fin 50), (deg 90, deg 270, Fin 50)]"
  by (simp add: slices_def deg_def pie_total_def pie_visibleData_def pie_totalAngle_def
      pie_startAngle_def pie_isSemi_def pie_isRose_def pie_isExploded_def Math_PI_def
      filterVisible_def field_def js_defs upt_rec Let_def)

subsection \<open>Crosshair snapping\<close>

lemma jmax_Fin: "jmax (Fin a) (Fin b) = Fin (max a b)"
  by (simp add: jmax_def max_def)

lemma jmin_Fin: "jmin (Fin a) (Fin b) = Fin (min a b)"
  by (simp add: jmin_def min_def)

lemma jsub_Fin: "jsub (Fin a) (Fin b) = Fin (a - b)"
  by (simp add: jsub_def)

lemma index_denominator:
  "0 < n \<Longrightarrow> jmax (jsub (num n) (Fin 1)) (Fin 1) = Fin (real (max (n - 1) 1))"
  by (cases n) (auto simp: num_def jsub_Fin jmax_Fin max_def)

lemma stepWidth_Fin:
  "0 < n \<Longrightarrow> stepWidth n (Fin w) = Fin (w / real (max (n - 1) 1))"
  by (simp add: stepWidth_def index_denominator)

lemma clamp_of_int:
  "max 0 (min (real_of_int a) (real n - 1)) = real_of_int (max 0 (min a (int n - 1)))"
  by (auto simp: max_def min_def)

lemma nearestIndex_Fin:
  assumes "0 < n" "w \<noteq> 0"
  shows "nearestIndex n (Fin cx) (Fin w) (Fin mx) = Fin (of_int (spec_snapIndex n cx w mx))"
  using assms unfolding nearestIndex_def spec_snapIndex_def
  by (simp add: stepWidth_Fin jsub_Fin jmin_Fin jmax_Fin num_def clamp_of_int)

lemma snapX_Fin:
  "0 < n \<Longrightarrow> snapX n (Fin cx) (Fin w) (Fin i) = Fin (cx + i / real (max (n - 1) 1) * w)"
  by (simp add: snapX_def index_denominator)

lemma snapIndex_at_point:
  assumes "k < n" "w \<noteq> 0"
  shows "spec_snapIndex n cx w (cx + real k / real (max (n - 1) 1) * w) = int k"
proof -
  have "(real k / real (max (n - 1) 1) * w) / (w / real (max (n - 1) 1)) = real k"
    using assms by (simp add: max_def)
  then have "\<lfloor>(cx + real k / real (max (n - 1) 1) * w - cx) / (w / real (max (n - 1) 1)) + 1 / 2\<rfloor> = int k"
    by (simp add: floor_eq_iff)
  then show ?thesis using assms unfolding spec_snapIndex_def by simp
qed

lemma snapIndex_halfway:
  assumes "Suc k < n" "w \<noteq> 0"
  shows "spec_snapIndex n cx w
           (((cx + real k / real (max (n - 1) 1) * w) + (cx + real (Suc k) / real (max (n - 1) 1) * w)) / 2)
         = int k + 1"
proof -
  have "(((cx + real k / real (max (n - 1) 1) * w) + (cx + real (Suc k) / real (max (n - 1) 1) * w)) / 2 - cx)
          / (w / real (max (n - 1) 1)) = real k + 1 / 2"
    using assms by (simp add: max_def field_simps)
  then have "\<lfloor>(((cx + real k / real (max (n - 1) 1) * w) + (cx + real (Suc k) / real (max (n - 1) 1) * w)) / 2 - cx)
          / (w / real (max (n - 1) 1)) + 1 / 2\<rfloor> = int k + 1"
    by (simp add: floor_eq_iff)
  then show ?thesis using assms unfolding spec_snapIndex_def by simp
qed

lemma snapIndex_range: "0 < n \<Longrightarrow> 0 \<le> spec_snapIndex n cx w mx \<and> spec_snapIndex n cx w mx < int n"
  by (auto simp: spec_snapIndex_def)

lemma idx_in_range:
  "0 \<le> j \<Longrightarrow> j < int (length xs) \<Longrightarrow> idx xs (Fin (of_int j)) = Some (xs ! nat j)"
  by (simp add: idx_def)


lemma nearestIndex_at_point:
  assumes "k < n" "w \<noteq> 0"
  shows "nearestIndex n (Fin cx) (Fin w) (snapX n (Fin cx) (Fin w) (num k)) = num k"
proof -
  have n: "0 < n" using assms by simp
  show ?thesis
    using snapIndex_at_point[OF assms, of cx]
    by (simp add: num_def snapX_Fin[OF n] nearestIndex_Fin[OF n assms(2)])
qed

lemma nearestIndex_halfway:
  assumes "Suc k < n" "w \<noteq> 0"
  shows "nearestIndex n (Fin cx) (Fin w)
           (jdiv (jadd (snapX n (Fin cx) (Fin w) (num k)) (snapX n (Fin cx) (Fin w) (num (Suc k)))) (Fin 2))
         = num (Suc k)"
proof -
  have n: "0 < n" using assms by simp
  show ?thesis
    using snapIndex_halfway[OF assms, of cx]
    by (simp add: num_def snapX_Fin[OF n] nearestIndex_Fin[OF n assms(2)])
qed

lemma hook_handler_snap:
  assumes n: "0 < n" and w: "w \<noteq> 0"
    and S: "length (cs_data S) = n" "cs_chartX S = Fin cx" "cs_chartWidth S = Fin w"
  shows "\<exists>ch tt. handleChartMouseMove S (Some (Fin l)) (Fin c) = Inr (Some (ch, tt))
           \<and> ch_index ch = Fin (of_int (spec_snapIndex n cx w (c - l)))
           \<and> ch_x ch = Fin (cx + of_int (spec_snapIndex n cx w (c - l)) / real (max (n - 1) 1) * w)"
proof -
  have it: "idx (cs_data S) (Fin (of_int (spec_snapIndex n cx w (c - l))))
            = Some (cs_data S ! nat (spec_snapIndex n cx w (c - l)))"
    using snapIndex_range[OF n, of cx w "c - l"] S(1) by (simp add: idx_in_range)
  show ?thesis
    using n unfolding handleChartMouseMove_def Let_def S
    by (simp add: jsub_Fin nearestIndex_Fin[OF n w] snapX_Fin[OF n] it)
qed

lemma area_handler_snap:
  assumes n: "0 < n" and w: "w \<noteq> 0"
    and P: "length (ac_data P) = n" "area_chartX P = Fin cx" "area_chartWidth P = Fin w"
  shows "\<exists>ch tt. area_handleChartMouseMove P st hf (Some (Fin l)) (Fin c) = Inr (Some (ch, tt))
           \<and> ch_index ch = Fin (of_int (spec_snapIndex n cx w (c - l)))
           \<and> ch_x ch = Fin (cx + of_int (spec_snapIndex n cx w (c - l)) / real (max (n - 1) 1) * w)"
proof -
  have it: "idx (ac_data P) (Fin (of_int (spec_snapIndex n cx w (c - l))))
            = Some (ac_data P ! nat (spec_snapIndex n cx w (c - l)))"
    using snapIndex_range[OF n, of cx w "c - l"] P(1) by (simp add: idx_in_range)
  have ix: "area_indexX P i = snapX n (Fin cx) (Fin w) i" for i
    by (simp add: area_indexX_def snapX_def P)
  show ?thesis
    using n unfolding area_handleChartMouseMove_def Let_def P ix
    by (simp add: jsub_Fin nearestIndex_Fin[OF n w] snapX_Fin[OF n] it)
qed

text \<open>
  C4. For data of length \<open>n > 0\<close> and a plot of non-zero finite width, the index computed
  from a pointer position is the rounded quotient of the offset by the step width, clamped
  to \<open>[0, n - 1]\<close>; a pointer exactly on the pixel of index \<open>k\<close> gives \<open>k\<close>; a pointer exactly
  halfway between the pixels of \<open>k\<close> and \<open>k + 1\<close> gives \<open>k + 1\<close>; and both handlers (the hook of
  ChartUtils and AreaChart's own) set the crosshair to that index and to the pixel
  recomputed from it.
\<close>

theorem snap_index_correct:
  assumes n: "0 < n" and w: "w \<noteq> 0"
    and S: "length (cs_data S) = n" "cs_chartX S = Fin cx" "cs_chartWidth S = Fin w"
    and P: "length (ac_data P) = n" "area_chartX P = Fin cx" "area_chartWidth P = Fin w"
  shows
   "nearestIndex n (Fin cx) (Fin w) (Fin mx) = Fin (of_int (spec_snapIndex n cx w mx))
    \<and> (\<forall>k<n. nearestIndex n (Fin cx) (Fin w) (snapX n (Fin cx) (Fin w) (num k)) = num k)
    \<and> (\<forall>k. Suc k < n \<longrightarrow>
          nearestIndex n (Fin cx) (Fin w)
            (jdiv (jadd (snapX n (Fin cx) (Fin w) (num k)) (snapX n (Fin cx) (Fin w) (num (Suc k)))) (Fin 2))
          = num (Suc k))
    \<and> (\<exists>ch tt. handleChartMouseMove S (Some (Fin l)) (Fin c) = Inr (Some (ch, tt))
           \<and> ch_index ch = Fin (of_int (spec_snapIndex n cx w (c - l)))
           \<and> ch_x ch = Fin (cx + of_int (spec_snapIndex n cx w (c - l)) / real (max (n - 1) 1) * w))
    \<and> (\<exists>ch tt. area_handleChartMouseMove P st hf (Some (Fin l)) (Fin c) = Inr (Some (ch, tt))
           \<and> ch_index ch = Fin (of_int (spec_snapIndex n cx w (c - l)))
           \<and> ch_x ch = Fin (cx + of_int (spec_snapIndex n cx w (c - l)) / real (max (n - 1) 1) * w))"
proof (intro conjI allI impI)
  show "nearestIndex n (Fin cx) (Fin w) (Fin mx) = Fin (of_int (spec_snapIndex n cx w mx))"
    by (rule nearestIndex_Fin[OF n w])
next
  fix k assume "k < n"
  then show "nearestIndex n (Fin cx) (Fin w) (snapX n (Fin cx) (Fin w) (num k)) = num k"
    by (rule nearestIndex_at_point[OF _ w])
next
  fix k assume "Suc k < n"
  then show "nearestIndex n (Fin cx) (Fin w)
            (jdiv (jadd (snapX n (Fin cx) (Fin w) (num k)) (snapX n (Fin cx) (Fin w) (num (Suc k)))) (Fin 2))
          = num (Suc k)"
    by (rule nearestIndex_halfway[OF _ w])
next
  show "\<exists>ch tt. handleChartMouseMove S (Some (Fin l)) (Fin c) = Inr (Some (ch, tt))
           \<and> ch_index ch = Fin (of_int (spec_snapIndex n cx w (c - l)))
           \<and> ch_x ch = Fin (cx + of_int (spec_snapIndex n cx w (c - l)) / real (max (n - 1) 1) * w)"
    by (rule hook_handler_snap[OF n w S])
next
  show "\<exists>ch tt. area_handleChartMouseMove P st hf (Some (Fin l)) (Fin c) = Inr (Some (ch, tt))
           \<and> ch_index ch = Fin (of_int (spec_snapIndex n cx w (c - l)))
           \<and> ch_x ch = Fin (cx + of_int (spec_snapIndex n cx w (c - l)) / real (max (n - 1) 1) * w)"
    by (rule area_handler_snap[OF n w P])
qed


theorem snap_index_correct_witness:
  "nearestIndex 3 (Fin 50) (Fin 350) (Fin 140) = Fin 1
   \<and> nearestIndex 3 (Fin 50) (Fin 350) (Fin 225) = Fin 1
   \<and> nearestIndex 3 (Fin 50) (Fin 350) (Fin (275 / 2)) = Fin 1
   \<and> (\<exists>ch tt. handleChartMouseMove
          \<lparr> cs_data = [Map.empty, Map.empty, Map.empty], cs_chartX = Fin 50, cs_chartWidth = Fin 350,
            cs_yKeys = [], cs_getPointY = (\<lambda>d k i. Fin 0), cs_getColor = (\<lambda>i. []),
            cs_showTooltip = True, cs_hasFormatter = False \<rparr>
          (Some (Fin 10)) (Fin 150) = Inr (Some (ch, tt))
        \<and> ch_index ch = Fin 1 \<and> ch_x ch = Fin 225)
   \<and> (\<exists>ch tt. area_handleChartMouseMove
          \<lparr> ac_data = [Map.empty, Map.empty, Map.empty], ac_yKey = OneKey ''value'',
            ac_variant = Curved, ac_color = ''violet'', ac_showGrid = True, ac_showLine = True,
            ac_width = Fin 400, ac_height = Fin 300, ac_showXAxis = True, ac_showYAxis = True,
            ac_yAxisWidth = Fin 50, ac_xAxisHeight = Fin 30, ac_animationProgress = Fin 1,
            ac_hiddenSeries = {} \<rparr>
          True False (Some (Fin 10)) (Fin 150) = Inr (Some (ch, tt))
        \<and> ch_index ch = Fin 1 \<and> ch_x ch = Fin 225)"
proof -
  let ?S = "\<lparr> cs_data = [Map.empty, Map.empty, Map.empty], cs_chartX = Fin 50, cs_chartWidth = Fin 350,
            cs_yKeys = [], cs_getPointY = (\<lambda>d k i. Fin 0), cs_getColor = (\<lambda>i. []),
            cs_showTooltip = True, cs_hasFormatter = False \<rparr>"
  let ?P = "\<lparr> ac_data = [Map.empty, Map.empty, Map.empty], ac_yKey = OneKey ''value'',
            ac_variant = Curved, ac_color = ''violet'', ac_showGrid = True, ac_showLine = True,
            ac_width = Fin 400, ac_height = Fin 300, ac_showXAxis = True, ac_showYAxis = True,
            ac_yAxisWidth = Fin 50, ac_xAxisHeight = Fin 30, ac_animationProgress = Fin 1,
            ac_hiddenSeries = {} \<rparr>"
  have h1: "0 < (3::nat)" and h2: "(350::real) \<noteq> 0" by simp_all
  have h3: "length (cs_data ?S) = 3" and h4: "cs_chartX ?S = Fin 50"
    and h5: "cs_chartWidth ?S = Fin 350" by simp_all
  have h6: "length (ac_data ?P) = 3" and h7: "area_chartX ?P = Fin 50"
    and h8: "area_chartWidth ?P = Fin 350"
    by (simp_all add: area_chartX_def area_chartWidth_def jsub_def)
  note T = snap_index_correct[OF h1 h2 h3 h4 h5 h6 h7 h8, of 140 10 150 True False]
  have i1: "spec_snapIndex 3 50 350 140 = 1"
    by (simp add: spec_snapIndex_def)
  have x0: "snapX 3 (Fin 50) (Fin 350) (num 0) = Fin 50"
    and x1: "snapX 3 (Fin 50) (Fin 350) (num 1) = Fin 225"
    by (simp_all add: snapX_def js_defs)
  have a: "nearestIndex 3 (Fin 50) (Fin 350) (Fin 140) = Fin 1"
    using T i1 by simp
  have b: "nearestIndex 3 (Fin 50) (Fin 350) (Fin 225) = Fin 1"
    using T[THEN conjunct2, THEN conjunct1, rule_format, of 1] x1 by (simp add: num_def)
  have c: "nearestIndex 3 (Fin 50) (Fin 350) (Fin (275 / 2)) = Fin 1"
    using T[THEN conjunct2, THEN conjunct2, THEN conjunct1, rule_format, of 0] x0 x1
    by (simp add: num_def)
  show ?thesis
    using a b c T i1 by simp
qed

subsection \<open>Stacking\<close>

lemma allPoints_loop_nth:
  assumes st: "area_isStacked P"
  shows "k + j < length (area_yKeys P) \<Longrightarrow>
         allPoints_loop P k sv (drop k (area_yKeys P)) ! j
         = stackedEntry P (foldl (stackAdd P) sv (filter (\<lambda>kj. kj \<notin> ac_hiddenSeries P) [k ..< k + j])) (k + j)"
proof (induction j arbitrary: k sv)
  case 0
  then have "drop k (area_yKeys P) = area_yKeys P ! k # drop (Suc k) (area_yKeys P)"
    by (simp add: Cons_nth_drop_Suc)
  then show ?case using st by (simp add: stackedEntry_def)
next
  case (Suc j)
  then have k: "k < length (area_yKeys P)" and kj: "Suc k + j < length (area_yKeys P)" by simp_all
  have d: "drop k (area_yKeys P) = area_yKeys P ! k # drop (Suc k) (area_yKeys P)"
    using k by (simp add: Cons_nth_drop_Suc)
  have u: "[k ..< k + Suc j] = k # [Suc k ..< Suc k + j]"
    by (simp add: upt_rec)
  show ?case
    unfolding d u using st Suc.IH[OF kj] by (simp add: stackAdd_def)
qed

lemma length_stackAdd: "length (stackAdd P sv kj) = length (ac_data P)"
  by (simp add: stackAdd_def)

lemma foldl_stackAdd_nth:
  "i < length (ac_data P) \<Longrightarrow>
   foldl (stackAdd P) sv ks ! i = foldl jadd (sv ! i) (map (area_rawValue P i) ks)"
  by (induction ks arbitrary: sv) (simp_all add: stackAdd_def area_rawValue_def)

lemma area_stackedBase:
  assumes "area_isStacked P" "i < length (ac_data P)" "ki < length (area_yKeys P)"
    "ki \<notin> ac_hiddenSeries P"
  shows "pt_stackedBase (se_points (area_allPoints P ! ki) ! i) = jsum (map (area_rawValue P i) (area_visibleBelow P ki))"
    and "pt_value (se_points (area_allPoints P ! ki) ! i) = area_rawValue P i ki"
proof -
  have e: "area_allPoints P ! ki
        = stackedEntry P (foldl (stackAdd P) (map (\<lambda>_. Fin 0) (ac_data P)) (area_visibleBelow P ki)) ki"
    using allPoints_loop_nth[OF assms(1), of 0 ki] assms(3)
    by (simp add: area_allPoints_def area_visibleBelow_def)
  show "pt_stackedBase (se_points (area_allPoints P ! ki) ! i) = jsum (map (area_rawValue P i) (area_visibleBelow P ki))"
    unfolding e using assms(2,4)
    by (simp add: stackedEntry_def area_getPoints_def Let_def foldl_stackAdd_nth jsum_def)
  show "pt_value (se_points (area_allPoints P ! ki) ! i) = area_rawValue P i ki"
    unfolding e using assms(2,4)
    by (simp add: stackedEntry_def area_getPoints_def Let_def area_rawValue_def)
qed

lemma visibleBelow_top:
  assumes "ki < n" "ki \<notin> H" "\<forall>kj. ki < kj \<and> kj < n \<longrightarrow> kj \<in> H"
  shows "filter (\<lambda>kj. kj \<notin> H) [0 ..< n] = filter (\<lambda>kj. kj \<notin> H) [0 ..< ki] @ [ki]"
proof -
  have "[0 ..< n] = [0 ..< ki] @ ki # [Suc ki ..< n]"
    using assms(1) by (metis le_add2 less_imp_add_positive plus_nat.add_0 upt_add_eq_append upt_conv_Cons zero_le)
  moreover have "filter (\<lambda>kj. kj \<notin> H) [Suc ki ..< n] = []"
    using assms(3) by (auto simp: filter_empty_conv)
  ultimately show ?thesis using assms(2) by simp
qed

lemma stackedBars_loop_nth:
  "k + j < length (bar_yKeys P) \<Longrightarrow>
   stackedBars_loop P i k cy (drop k (bar_yKeys P)) ! j
   = stackedRect P i (foldl jadd cy (map (bar_segHeight P i)
                        (filter (\<lambda>kj. kj \<notin> bc_hiddenSeries P) [k ..< k + j]))) (k + j)"
proof (induction j arbitrary: k cy)
  case 0
  then have "drop k (bar_yKeys P) = bar_yKeys P ! k # drop (Suc k) (bar_yKeys P)"
    by (simp add: Cons_nth_drop_Suc)
  then show ?case by (simp add: stackedRect_def bar_segHeight_def Let_def)
next
  case (Suc j)
  then have k: "k < length (bar_yKeys P)" and kj: "Suc k + j < length (bar_yKeys P)" by simp_all
  have d: "drop k (bar_yKeys P) = bar_yKeys P ! k # drop (Suc k) (bar_yKeys P)"
    using k by (simp add: Cons_nth_drop_Suc)
  have u: "[k ..< k + Suc j] = k # [Suc k ..< Suc k + j]"
    by (simp add: upt_rec)
  show ?case
    unfolding d u using Suc.IH[OF kj] by (simp add: bar_segHeight_def Let_def)
qed

lemma bar_stacked_rect:
  assumes "bc_variant B = BarStacked" "bar_isMultiSeries B" "bi < length (bc_data B)"
    "bk < length (bar_yKeys B)"
  shows "bar_renderBars B ! bi ! bk
         = stackedRect B bi (jsum (map (bar_segHeight B bi) (bar_visibleBelow B bk))) bk"
  using assms stackedBars_loop_nth[of 0 bk B bi "Fin 0"]
  by (simp add: bar_renderBars_def bar_isHorizontal_def jsum_def bar_visibleBelow_def)

lemma allPoints_hidden:
  assumes "area_isStacked P" "kh < length (area_yKeys P)" "kh \<in> ac_hiddenSeries P"
  shows "se_points (area_allPoints P ! kh) = []"
  using allPoints_loop_nth[OF assms(1), of 0 kh] assms(2,3)
  by (simp add: area_allPoints_def stackedEntry_def)

text \<open>
  C5. In stacked mode, at every data index, the \<open>stackedBase\<close> of a visible series is the sum
  of the raw values of the visible series below it; for the topmost visible series
  \<open>stackedBase + value\<close> is the sum of the raw values of all visible series; a hidden series
  gets no points and adds nothing to any base. In BarChart's stacked bars the segment of a
  visible series sits on the summed heights of the visible segments below it.
\<close>

theorem stacked_base_sum:
  assumes a: "area_isStacked P" "i < length (ac_data P)" "ki < length (area_yKeys P)"
      "ki \<notin> ac_hiddenSeries P"
    and b: "bc_variant B = BarStacked" "bar_isMultiSeries B" "bi < length (bc_data B)"
      "bk < length (bar_yKeys B)" "bk \<notin> bc_hiddenSeries B"
  shows
    "pt_stackedBase (se_points (area_allPoints P ! ki) ! i)
       = jsum (map (area_rawValue P i) (area_visibleBelow P ki))
     \<and> pt_value (se_points (area_allPoints P ! ki) ! i) = area_rawValue P i ki
     \<and> ((\<forall>kj. ki < kj \<and> kj < length (area_yKeys P) \<longrightarrow> kj \<in> ac_hiddenSeries P) \<longrightarrow>
          jadd (pt_stackedBase (se_points (area_allPoints P ! ki) ! i))
               (pt_value (se_points (area_allPoints P ! ki) ! i))
          = jsum (map (area_rawValue P i) (area_visibleBelow P (length (area_yKeys P)))))
     \<and> (\<forall>kh. kh < length (area_yKeys P) \<and> kh \<in> ac_hiddenSeries P \<longrightarrow>
            se_points (area_allPoints P ! kh) = [])
     \<and> (\<exists>r. bar_renderBars B ! bi ! bk = Some r
            \<and> br_height r = bar_segHeight B bi bk
            \<and> br_y r = jsub (jsub (bar_chartHeight B)
                                   (jsum (map (bar_segHeight B bi) (bar_visibleBelow B bk))))
                             (br_height r))"
proof (intro conjI allI impI)
  show sb: "pt_stackedBase (se_points (area_allPoints P ! ki) ! i)
       = jsum (map (area_rawValue P i) (area_visibleBelow P ki))"
    by (rule area_stackedBase(1)[OF a])
  show v: "pt_value (se_points (area_allPoints P ! ki) ! i) = area_rawValue P i ki"
    by (rule area_stackedBase(2)[OF a])
  show "jadd (pt_stackedBase (se_points (area_allPoints P ! ki) ! i))
               (pt_value (se_points (area_allPoints P ! ki) ! i))
          = jsum (map (area_rawValue P i) (area_visibleBelow P (length (area_yKeys P))))"
    if "\<forall>kj. ki < kj \<and> kj < length (area_yKeys P) \<longrightarrow> kj \<in> ac_hiddenSeries P"
    unfolding sb v area_visibleBelow_def visibleBelow_top[OF a(3,4) that]
    by (simp add: jsum_def)
  show "se_points (area_allPoints P ! kh) = []"
    if "kh < length (area_yKeys P) \<and> kh \<in> ac_hiddenSeries P" for kh
    using allPoints_hidden[OF a(1)] that by blast
  show "\<exists>r. bar_renderBars B ! bi ! bk = Some r
            \<and> br_height r = bar_segHeight B bi bk
            \<and> br_y r = jsub (jsub (bar_chartHeight B)
                                   (jsum (map (bar_segHeight B bi) (bar_visibleBelow B bk))))
                             (br_height r)"
    using bar_stacked_rect[OF b(1-4)] b(5) by (simp add: stackedRect_def)
qed

lemmas bar_defs = bar_barHeight_def bar_maxValue_def bar_chartHeight_def bar_yKeys_def
  bar_visibleYKeys_def bar_isMultiSeries_def filterVisible_def field_def

theorem stacked_base_sum_witness:
  "pt_stackedBase (se_points (area_allPoints
       \<lparr> ac_data = [[''a'' \<mapsto> Num (Fin 10), ''b'' \<mapsto> Num (Fin 99), ''c'' \<mapsto> Num (Fin 5)]],
         ac_yKey = ManyKeys [''a'', ''b'', ''c''], ac_variant = Stacked, ac_color = ''violet'',
         ac_showGrid = True, ac_showLine = True, ac_width = Fin 400, ac_height = Fin 300,
         ac_showXAxis = True, ac_showYAxis = True, ac_yAxisWidth = Fin 50, ac_xAxisHeight = Fin 30,
         ac_animationProgress = Fin 1, ac_hiddenSeries = {1} \<rparr> ! 2) ! 0) = Fin 10
   \<and> jadd (pt_stackedBase (se_points (area_allPoints
       \<lparr> ac_data = [[''a'' \<mapsto> Num (Fin 10), ''b'' \<mapsto> Num (Fin 99), ''c'' \<mapsto> Num (Fin 5)]],
         ac_yKey = ManyKeys [''a'', ''b'', ''c''], ac_variant = Stacked, ac_color = ''violet'',
         ac_showGrid = True, ac_showLine = True, ac_width = Fin 400, ac_height = Fin 300,
         ac_showXAxis = True, ac_showYAxis = True, ac_yAxisWidth = Fin 50, ac_xAxisHeight = Fin 30,
         ac_animationProgress = Fin 1, ac_hiddenSeries = {1} \<rparr> ! 2) ! 0))
          (pt_value (se_points (area_allPoints
       \<lparr> ac_data = [[''a'' \<mapsto> Num (Fin 10), ''b'' \<mapsto> Num (Fin 99), ''c'' \<mapsto> Num (Fin 5)]],
         ac_yKey = ManyKeys [''a'', ''b'', ''c''], ac_variant = Stacked, ac_color = ''violet'',
         ac_showGrid = True, ac_showLine = True, ac_width = Fin 400, ac_height = Fin 300,
         ac_showXAxis = True, ac_showYAxis = True, ac_yAxisWidth = Fin 50, ac_xAxisHeight = Fin 30,
         ac_animationProgress = Fin 1, ac_hiddenSeries = {1} \<rparr> ! 2) ! 0)) = Fin 15
   \<and> se_points (area_allPoints
       \<lparr> ac_data = [[''a'' \<mapsto> Num (Fin 10), ''b'' \<mapsto> Num (Fin 99), ''c'' \<mapsto> Num (Fin 5)]],
         ac_yKey = ManyKeys [''a'', ''b'', ''c''], ac_variant = Stacked, ac_color = ''violet'',
         ac_showGrid = True, ac_showLine = True, ac_width = Fin 400, ac_height = Fin 300,
         ac_showXAxis = True, ac_showYAxis = True, ac_yAxisWidth = Fin 50, ac_xAxisHeight = Fin 30,
         ac_animationProgress = Fin 1, ac_hiddenSeries = {1} \<rparr> ! 1) = []
   \<and> (\<exists>r. bar_renderBars
       \<lparr> bc_data = [[''a'' \<mapsto> Num (Fin 10), ''b'' \<mapsto> Num (Fin 5)],
                    [''a'' \<mapsto> Num (Fin 20), ''b'' \<mapsto> Num (Fin 5)]],
         bc_yKey = ManyKeys [''a'', ''b''], bc_variant = BarStacked, bc_color = ''violet'',
         bc_rounded = True, bc_barRadius = Fin 4, bc_width = Fin 400, bc_height = Fin 300,
         bc_barWidth = Fin (7 / 10), bc_gap = Fin (1 / 10), bc_showXAxis = True,
         bc_showYAxis = True, bc_yAxisWidth = Fin 50, bc_xAxisHeight = Fin 30,
         bc_animationProgress = Fin 1, bc_hiddenSeries = {} \<rparr> ! 0 ! 1 = Some r
        \<and> br_height r = Fin 54 \<and> br_y r = Fin 108)"
proof -
  let ?P = "\<lparr> ac_data = [[''a'' \<mapsto> Num (Fin 10), ''b'' \<mapsto> Num (Fin 99), ''c'' \<mapsto> Num (Fin 5)]],
         ac_yKey = ManyKeys [''a'', ''b'', ''c''], ac_variant = Stacked, ac_color = ''violet'',
         ac_showGrid = True, ac_showLine = True, ac_width = Fin 400, ac_height = Fin 300,
         ac_showXAxis = True, ac_showYAxis = True, ac_yAxisWidth = Fin 50, ac_xAxisHeight = Fin 30,
         ac_animationProgress = Fin 1, ac_hiddenSeries = {1} \<rparr>"
  let ?B = "\<lparr> bc_data = [[''a'' \<mapsto> Num (Fin 10), ''b'' \<mapsto> Num (Fin 5)],
                    [''a'' \<mapsto> Num (Fin 20), ''b'' \<mapsto> Num (Fin 5)]],
         bc_yKey = ManyKeys [''a'', ''b''], bc_variant = BarStacked, bc_color = ''violet'',
         bc_rounded = True, bc_barRadius = Fin 4, bc_width = Fin 400, bc_height = Fin 300,
         bc_barWidth = Fin (7 / 10), bc_gap = Fin (1 / 10), bc_showXAxis = True,
         bc_showYAxis = True, bc_yAxisWidth = Fin 50, bc_xAxisHeight = Fin 30,
         bc_animationProgress = Fin 1, bc_hiddenSeries = {} \<rparr>"
  have a: "area_isStacked ?P" "0 < length (ac_data ?P)" "2 < length (area_yKeys ?P)"
      "2 \<notin> ac_hiddenSeries ?P"
    by (simp_all add: area_isStacked_def area_isMultiSeries_def area_yKeys_def)
  have b: "bc_variant ?B = BarStacked" "bar_isMultiSeries ?B" "0 < length (bc_data ?B)"
      "1 < length (bar_yKeys ?B)" "1 \<notin> bc_hiddenSeries ?B"
    by (simp_all add: bar_isMultiSeries_def bar_yKeys_def)
  have top: "\<forall>kj. 2 < kj \<and> kj < length (area_yKeys ?P) \<longrightarrow> kj \<in> ac_hiddenSeries ?P"
    by (simp add: area_yKeys_def)
  have hid: "1 < length (area_yKeys ?P) \<and> 1 \<in> ac_hiddenSeries ?P"
    by (simp add: area_yKeys_def)
  have s1: "jsum (map (area_rawValue ?P 0) (area_visibleBelow ?P 2)) = Fin 10"
    by (simp add: jsum_def area_rawValue_def area_visibleBelow_def area_yKeys_def field_def
        jor_def truthy_def upt_rec)
  have s2: "jsum (map (area_rawValue ?P 0) (area_visibleBelow ?P (length (area_yKeys ?P)))) = Fin 15"
    by (simp add: jsum_def area_rawValue_def area_visibleBelow_def area_yKeys_def field_def
        jor_def truthy_def upt_rec)
  have s3: "bar_segHeight ?B 0 1 = Fin 54"
    by (simp add: bar_segHeight_def bar_defs js_defs upt_rec Let_def)
  have s4: "jsum (map (bar_segHeight ?B 0) (bar_visibleBelow ?B 1)) = Fin 108"
    by (simp add: jsum_def bar_visibleBelow_def bar_segHeight_def bar_defs js_defs upt_rec Let_def)
  have s5: "bar_chartHeight ?B = Fin 270"
    by (simp add: bar_chartHeight_def jsub_def)
  note T = stacked_base_sum[OF a b]
  have t1: "pt_stackedBase (se_points (area_allPoints ?P ! 2) ! 0) = Fin 10"
    using T s1 by simp
  have t2: "jadd (pt_stackedBase (se_points (area_allPoints ?P ! 2) ! 0))
                 (pt_value (se_points (area_allPoints ?P ! 2) ! 0)) = Fin 15"
    using T[THEN conjunct2, THEN conjunct2, THEN conjunct1, THEN mp, OF top] s2 by simp
  have t3: "se_points (area_allPoints ?P ! 1) = []"
    using T[THEN conjunct2, THEN conjunct2, THEN conjunct2, THEN conjunct1, THEN spec, THEN mp, OF hid] .
  have t4: "\<exists>r. bar_renderBars ?B ! 0 ! 1 = Some r \<and> br_height r = Fin 54 \<and> br_y r = Fin 108"
    using T[THEN conjunct2, THEN conjunct2, THEN conjunct2, THEN conjunct2] s3 s4 s5
    by (auto simp: jsub_def)
  show ?thesis using t1 t2 t3 t4 by blast
qed

subsection \<open>Contiguous pie slices\<close>

lemma filterVisible_shift:
  "map (\<lambda>j. xs ! (j - i)) (filter (\<lambda>j. j \<notin> H) [i ..< i + length xs]) = visItems H i xs"
proof (induction xs arbitrary: i)
  case Nil
  then show ?case by simp
next
  case (Cons d ds)
  have u: "[i ..< i + length (d # ds)] = i # [Suc i ..< Suc i + length ds]"
    by (simp add: upt_rec)
  have "(d # ds) ! (j - i) = ds ! (j - Suc i)"
    if "j \<in> set (filter (\<lambda>j. j \<notin> H) [Suc i ..< Suc i + length ds])" for j
  proof -
    from that have "j - i = Suc (j - Suc i)" by auto
    then show ?thesis by simp
  qed
  then have m: "map (\<lambda>j. (d # ds) ! (j - i)) (filter (\<lambda>j. j \<notin> H) [Suc i ..< Suc i + length ds])
      = map (\<lambda>j. ds ! (j - Suc i)) (filter (\<lambda>j. j \<notin> H) [Suc i ..< Suc i + length ds])"
    by (intro map_cong[OF refl]) blast
  have f: "filter (\<lambda>j. j \<notin> H) (i # R)
      = (if i \<in> H then filter (\<lambda>j. j \<notin> H) R else i # filter (\<lambda>j. j \<notin> H) R)" for R
    by simp
  show ?case unfolding u f
    by (cases "i \<in> H")
       (simp_all only: list.map m Cons.IH[of "Suc i"] visItems.simps diff_self_eq_0 nth_Cons_0
          if_True if_False simp_thms)
qed

lemma filterVisible_visItems: "filterVisible H xs = visItems H 0 xs"
  using filterVisible_shift[of xs 0 H] by (simp add: filterVisible_def)

lemma loop_hidden_span:
  "s \<in> set (slices_loop P i cur items) \<Longrightarrow> sl_hidden s \<Longrightarrow> sl_startAngle s = sl_endAngle s"
  by (induction items arbitrary: i cur) (auto simp: Let_def split: if_splits)

lemma loop_contiguous:
  "contiguous cur (filter (\<lambda>s. \<not> sl_hidden s) (slices_loop P i cur items))"
  by (induction items arbitrary: i cur) (simp_all add: Let_def)

lemma contiguous_nth:
  "contiguous cur ss \<Longrightarrow> Suc j < length ss \<Longrightarrow> sl_startAngle (ss ! Suc j) = sl_endAngle (ss ! j)"
proof (induction ss arbitrary: cur j)
  case Nil
  then show ?case by simp
next
  case (Cons s ss)
  show ?case
  proof (cases j)
    case 0
    with Cons.prems show ?thesis by (cases ss) simp_all
  next
    case (Suc j')
    with Cons.prems Cons.IH[of "sl_endAngle s" j'] show ?thesis by simp
  qed
qed

lemma contiguous_hd: "contiguous cur ss \<Longrightarrow> ss \<noteq> [] \<Longrightarrow> sl_startAngle (ss ! 0) = cur"
  by (cases ss) simp_all

lemma loop_spans:
  assumes "pie_total P = Fin t" "0 < t" "pc_animationProgress P = Fin 1" "pie_totalAngle P = Fin T"
  shows "\<forall>d \<in> set items. is_fin (or0 (field d (pc_valueKey P))) \<Longrightarrow>
         map sl_span (filter (\<lambda>s. \<not> sl_hidden s) (slices_loop P i (Fin c) items))
         = map (\<lambda>d. Fin (realOf (or0 (field d (pc_valueKey P))) / t * T)) (visItems (pc_hiddenSlices P) i items)"
proof (induction items arbitrary: i c)
  case Nil
  then show ?case by simp
next
  case (Cons d ds)
  then obtain v where v: "or0 (field d (pc_valueKey P)) = Fin v"
    by (auto simp: is_fin_iff)
  have rest: "\<forall>d \<in> set ds. is_fin (or0 (field d (pc_valueKey P)))" using Cons.prems by simp
  show ?case
    using assms Cons.IH[OF rest] v
    by (simp add: Let_def jgt_def sl_span_def jsub_def)
qed

lemma foldl_jadd_Fin:
  "\<forall>x \<in> set xs. is_fin (f x) \<Longrightarrow>
   foldl (\<lambda>sum x. jadd sum (f x)) (Fin a) xs = Fin (a + sum_list (map (\<lambda>x. realOf (f x)) xs))"
  by (induction xs arbitrary: a) (auto simp: is_fin_iff)

lemma set_visItems: "set (visItems H i xs) \<subseteq> set xs"
  by (induction xs arbitrary: i) auto

lemma sum_list_scaled:
  "sum_list (map (\<lambda>x. g x / t * T) xs) = sum_list (map g xs) / t * (T::real)"
  by (induction xs) (simp_all add: add_divide_distrib distrib_right)

lemma jsum_Fin: "jsum (map (\<lambda>x. Fin (g x)) xs) = Fin (sum_list (map g xs))"
proof -
  have "foldl jadd (Fin a) (map (\<lambda>x. Fin (g x)) xs) = Fin (a + sum_list (map g xs))" for a
    by (induction xs arbitrary: a) simp_all
  then show ?thesis by (simp add: jsum_def)
qed

lemma pie_spans_total:
  assumes pos: "jgt (pie_total P) (Fin 0)" and prog: "pc_animationProgress P = Fin 1"
    and fin: "\<forall>d \<in> set (pc_data P). is_fin (or0 (field d (pc_valueKey P)))"
  shows "jsum (map sl_span (visibleSlices P)) = pie_totalAngle P"
proof -
  let ?vis = "visItems (pc_hiddenSlices P) 0 (pc_data P)"
  let ?rv = "\<lambda>d. realOf (or0 (field d (pc_valueKey P)))"
  have finv: "\<forall>d \<in> set ?vis. is_fin (or0 (field d (pc_valueKey P)))"
    using fin set_visItems[of "pc_hiddenSlices P" 0 "pc_data P"] by blast
  have tot: "pie_total P = Fin (sum_list (map ?rv ?vis))"
    using foldl_jadd_Fin[OF finv, of 0]
    by (simp add: pie_total_def pie_visibleData_def filterVisible_visItems)
  then have t: "0 < sum_list (map ?rv ?vis)" using pos by (simp add: jgt_def)
  obtain T where T: "pie_totalAngle P = Fin T"
    by (cases "pie_isSemi P") (auto simp: pie_totalAngle_def Math_PI_def)
  obtain c where c: "pie_startAngle P = Fin c"
    by (cases "pie_isSemi P") (auto simp: pie_startAngle_def Math_PI_def)
  have "map sl_span (visibleSlices P)
      = map (\<lambda>d. Fin (?rv d / sum_list (map ?rv ?vis) * T)) ?vis"
    unfolding visibleSlices_def slices_def c
    by (rule loop_spans[OF tot t prog T fin])
  then have "jsum (map sl_span (visibleSlices P))
      = Fin (sum_list (map (\<lambda>d. ?rv d / sum_list (map ?rv ?vis) * T) ?vis))"
    by (simp only: jsum_Fin)
  also have "sum_list (map (\<lambda>d. ?rv d / sum_list (map ?rv ?vis) * T) ?vis)
      = sum_list (map ?rv ?vis) / sum_list (map ?rv ?vis) * T"
    by (rule sum_list_scaled)
  also have "\<dots> = T"
    using t by simp
  finally show ?thesis by (simp add: T)
qed

lemma jle_Fin: "jle (Fin a) (Fin b) = (a \<le> b)"
  by (auto simp: jle_def)

lemma loop_forward:
  assumes "pie_total P = Fin t" "0 < t" "pc_animationProgress P = Fin 1" "pie_totalAngle P = Fin T"
    "0 \<le> T"
  shows "\<forall>d \<in> set items. is_fin (or0 (field d (pc_valueKey P))) \<and> jle (Fin 0) (or0 (field d (pc_valueKey P))) \<Longrightarrow>
         \<forall>s \<in> set (slices_loop P i (Fin c) items). jle (sl_startAngle s) (sl_endAngle s)"
proof (induction items arbitrary: i c)
  case Nil
  then show ?case by simp
next
  case (Cons d ds)
  then obtain v where v: "or0 (field d (pc_valueKey P)) = Fin v" and v0: "0 \<le> v"
    by (auto simp: is_fin_iff jle_Fin)
  have rest: "\<forall>d \<in> set ds. is_fin (or0 (field d (pc_valueKey P))) \<and> jle (Fin 0) (or0 (field d (pc_valueKey P)))"
    using Cons.prems by simp
  have "0 \<le> v / t * T" using v0 assms(2,5) by simp
  then show ?case
    using assms(1-4) Cons.IH[OF rest] v
    by (simp add: Let_def jgt_def jle_Fin)
qed

lemma pie_total_Fin:
  assumes "\<forall>d \<in> set (pc_data P). is_fin (or0 (field d (pc_valueKey P)))"
  shows "pie_total P = Fin (sum_list (map (\<lambda>d. realOf (or0 (field d (pc_valueKey P))))
                                          (visItems (pc_hiddenSlices P) 0 (pc_data P))))"
proof -
  have "\<forall>d \<in> set (visItems (pc_hiddenSlices P) 0 (pc_data P)). is_fin (or0 (field d (pc_valueKey P)))"
    using assms set_visItems[of "pc_hiddenSlices P" 0 "pc_data P"] by blast
  from foldl_jadd_Fin[OF this, of 0] show ?thesis
    by (simp add: pie_total_def pie_visibleData_def filterVisible_visItems)
qed

lemma pie_visible_nonempty:
  assumes pos: "jgt (pie_total P) (Fin 0)"
  shows "visItems (pc_hiddenSlices P) 0 (pc_data P) \<noteq> []"
proof
  assume "visItems (pc_hiddenSlices P) 0 (pc_data P) = []"
  then have "pie_total P = Fin 0"
    by (simp add: pie_total_def pie_visibleData_def filterVisible_visItems)
  with pos show False by (simp add: jgt_def)
qed

lemma loop_visible_length:
  "length (filter (\<lambda>s. \<not> sl_hidden s) (slices_loop P i cur items))
   = length (visItems (pc_hiddenSlices P) i items)"
  by (induction items arbitrary: i cur) (simp_all add: Let_def)

lemma jle_trans: "jle a b \<Longrightarrow> jle b c \<Longrightarrow> jle a c"
  by (cases a; cases b; cases c) (auto simp: jle_def)

lemma jle_refl: "jle a b \<Longrightarrow> jle b b"
  by (simp add: jle_def)

lemma contiguous_ordered:
  assumes c: "contiguous cur ss"
    and f: "\<forall>s \<in> set ss. jle (sl_startAngle s) (sl_endAngle s)"
  shows "i < j \<Longrightarrow> j < length ss \<Longrightarrow> jle (sl_endAngle (ss ! i)) (sl_startAngle (ss ! j))"
proof (induction j)
  case 0
  then show ?case by simp
next
  case (Suc j)
  have eq: "sl_startAngle (ss ! Suc j) = sl_endAngle (ss ! j)"
    by (rule contiguous_nth[OF c Suc.prems(2)])
  have fj: "jle (sl_startAngle (ss ! j)) (sl_endAngle (ss ! j))"
    using f Suc.prems(2) by simp
  show ?case
  proof (cases "i = j")
    case True
    then show ?thesis unfolding eq using fj jle_refl by blast
  next
    case False
    then have "i < j" using Suc.prems(1) by simp
    then have "jle (sl_endAngle (ss ! i)) (sl_startAngle (ss ! j))"
      using Suc.IH Suc.prems(2) by simp
    then show ?thesis unfolding eq using fj jle_trans by blast
  qed
qed

lemma loop_finite:
  assumes "pie_total P = Fin t" "0 < t" "pc_animationProgress P = Fin 1" "pie_totalAngle P = Fin T"
  shows "\<forall>d \<in> set items. is_fin (or0 (field d (pc_valueKey P))) \<Longrightarrow>
         \<forall>s \<in> set (slices_loop P i (Fin c) items). is_fin (sl_endAngle s)"
proof (induction items arbitrary: i c)
  case Nil
  then show ?case by simp
next
  case (Cons d ds)
  then obtain v where v: "or0 (field d (pc_valueKey P)) = Fin v"
    by (auto simp: is_fin_iff)
  have rest: "\<forall>d \<in> set ds. is_fin (or0 (field d (pc_valueKey P)))"
    using Cons.prems by simp
  show ?case
    using assms Cons.IH[OF rest] v
    by (simp add: Let_def jgt_def)
qed

lemma spans_telescope:
  "contiguous (Fin c) ss \<Longrightarrow> ss \<noteq> [] \<Longrightarrow> \<forall>s \<in> set ss. is_fin (sl_endAngle s) \<Longrightarrow>
   foldl jadd (Fin a) (map sl_span ss) = jadd (Fin a) (jsub (sl_endAngle (last ss)) (Fin c))"
proof (induction ss arbitrary: a c)
  case Nil
  then show ?case by simp
next
  case (Cons s ss)
  then obtain e where e: "sl_endAngle s = Fin e" and st: "sl_startAngle s = Fin c"
    by (auto simp: is_fin_iff)
  show ?case
  proof (cases "ss = []")
    case True
    then show ?thesis by (simp add: sl_span_def e st)
  next
    case False
    have c': "contiguous (Fin e) ss" using Cons.prems(1) e by simp
    have f': "\<forall>s \<in> set ss. is_fin (sl_endAngle s)" using Cons.prems(3) by simp
    obtain l where l: "sl_endAngle (last ss) = Fin l"
      using f' False by (metis is_fin_iff last_in_set)
    show ?thesis
      using Cons.IH[OF c' False f', of "a + (e - c)"] False
      by (simp add: sl_span_def e st l jsub_def)
  qed
qed

text \<open>
  C10, as stated, fails in two ways. For the values 3 and -1 the total is 2, yet slice 0
  sweeps from \<open>-\<pi>/2\<close> to \<open>5\<pi>/2\<close> (more than a full turn) and slice 1 runs backward from
  \<open>5\<pi>/2\<close> to \<open>3\<pi>/2\<close>, over slice 0. For the values 5 and 0 with slice 0 hidden the data
  has a positive total, but the visible total is 0, every angle is 0
  (\<open>total > 0 ? ... : 0\<close>) and the visible spans add up to 0.
\<close>

theorem pie_overlap_counterexample:
  "pie_total \<lparr> pc_data = [[''value'' \<mapsto> Num (Fin 3)], [''value'' \<mapsto> Num (Fin (- 1))]],
               pc_valueKey = ''value'', pc_variant = PieDefault, pc_color = ''violet'',
               pc_donutWidth = Fin 60, pc_width = Fin 300, pc_height = Fin 300,
               pc_showLegend = True, pc_legendPosition = LegendBottom,
               pc_animationProgress = Fin 1, pc_hiddenSlices = {} \<rparr> = Fin 2
   \<and> sl_startAngle (slices \<lparr> pc_data = [[''value'' \<mapsto> Num (Fin 3)], [''value'' \<mapsto> Num (Fin (- 1))]],
               pc_valueKey = ''value'', pc_variant = PieDefault, pc_color = ''violet'',
               pc_donutWidth = Fin 60, pc_width = Fin 300, pc_height = Fin 300,
               pc_showLegend = True, pc_legendPosition = LegendBottom,
               pc_animationProgress = Fin 1, pc_hiddenSlices = {} \<rparr> ! 0) = Fin (- pi / 2)
   \<and> sl_endAngle (slices \<lparr> pc_data = [[''value'' \<mapsto> Num (Fin 3)], [''value'' \<mapsto> Num (Fin (- 1))]],
               pc_valueKey = ''value'', pc_variant = PieDefault, pc_color = ''violet'',
               pc_donutWidth = Fin 60, pc_width = Fin 300, pc_height = Fin 300,
               pc_showLegend = True, pc_legendPosition = LegendBottom,
               pc_animationProgress = Fin 1, pc_hiddenSlices = {} \<rparr> ! 0) = Fin (5 * pi / 2)
   \<and> sl_startAngle (slices \<lparr> pc_data = [[''value'' \<mapsto> Num (Fin 3)], [''value'' \<mapsto> Num (Fin (- 1))]],
               pc_valueKey = ''value'', pc_variant = PieDefault, pc_color = ''violet'',
               pc_donutWidth = Fin 60, pc_width = Fin 300, pc_height = Fin 300,
               pc_showLegend = True, pc_legendPosition = LegendBottom,
               pc_animationProgress = Fin 1, pc_hiddenSlices = {} \<rparr> ! 1) = Fin (5 * pi / 2)
   \<and> sl_endAngle (slices \<lparr> pc_data = [[''value'' \<mapsto> Num (Fin 3)], [''value'' \<mapsto> Num (Fin (- 1))]],
               pc_valueKey = ''value'', pc_variant = PieDefault, pc_color = ''violet'',
               pc_donutWidth = Fin 60, pc_width = Fin 300, pc_height = Fin 300,
               pc_showLegend = True, pc_legendPosition = LegendBottom,
               pc_animationProgress = Fin 1, pc_hiddenSlices = {} \<rparr> ! 1) = Fin (3 * pi / 2)
   \<and> jlt (Fin (3 * pi / 2)) (Fin (5 * pi / 2))
   \<and> jsum (map sl_span (visibleSlices
             \<lparr> pc_data = [[''value'' \<mapsto> Num (Fin 5)], [''value'' \<mapsto> Num (Fin 0)]],
               pc_valueKey = ''value'', pc_variant = PieDefault, pc_color = ''violet'',
               pc_donutWidth = Fin 60, pc_width = Fin 300, pc_height = Fin 300,
               pc_showLegend = True, pc_legendPosition = LegendBottom,
               pc_animationProgress = Fin 1, pc_hiddenSlices = {0} \<rparr>)) = Fin 0"
  by (simp add: slices_def visibleSlices_def sl_span_def jsum_def pie_total_def pie_visibleData_def
      pie_totalAngle_def pie_startAngle_def pie_isSemi_def pie_isRose_def pie_isExploded_def
      Math_PI_def filterVisible_def field_def js_defs upt_rec Let_def)

text \<open>
  C10, amended. For data with finite non-negative values and a hidden set that leaves a
  positive visible total, at animation progress 1: a hidden slice has equal start and end
  angle; the first visible slice starts at the start angle (\<open>-\<pi>/2\<close>, or \<open>-\<pi>\<close> for the semi
  variant); every further visible slice starts where the preceding visible slice ends; the
  spans of the visible slices add up to the total angle (\<open>2\<pi>\<close>, or \<open>\<pi>\<close> for semi); every
  visible slice runs forward, a visible slice ends no later than any later one starts,
  and the last visible slice ends at the start angle plus the total angle.
\<close>

theorem pie_slices_contiguous:
  assumes pos: "jgt (pie_total P) (Fin 0)" and prog: "pc_animationProgress P = Fin 1"
    and fin: "\<forall>d \<in> set (pc_data P). is_fin (or0 (field d (pc_valueKey P)))"
    and nn: "\<forall>d \<in> set (pc_data P). jle (Fin 0) (or0 (field d (pc_valueKey P)))"
  shows
    "(\<forall>s \<in> set (slices P). sl_hidden s \<longrightarrow> sl_startAngle s = sl_endAngle s)
     \<and> visibleSlices P \<noteq> []
     \<and> sl_startAngle (visibleSlices P ! 0) = pie_startAngle P
     \<and> (\<forall>j. Suc j < length (visibleSlices P) \<longrightarrow>
            sl_startAngle (visibleSlices P ! Suc j) = sl_endAngle (visibleSlices P ! j))
     \<and> jsum (map sl_span (visibleSlices P)) = pie_totalAngle P
     \<and> pie_startAngle P = Fin (if pc_variant P = Semi then - pi else - pi / 2)
     \<and> pie_totalAngle P = Fin (if pc_variant P = Semi then pi else 2 * pi)
     \<and> (\<forall>s \<in> set (visibleSlices P). jle (sl_startAngle s) (sl_endAngle s))
     \<and> (\<forall>i j. i < j \<and> j < length (visibleSlices P) \<longrightarrow>
            jle (sl_endAngle (visibleSlices P ! i)) (sl_startAngle (visibleSlices P ! j)))
     \<and> sl_endAngle (last (visibleSlices P)) = jadd (pie_startAngle P) (pie_totalAngle P)"
proof -
  have hid: "\<forall>s \<in> set (slices P). sl_hidden s \<longrightarrow> sl_startAngle s = sl_endAngle s"
    using loop_hidden_span unfolding slices_def by blast
  have c: "contiguous (pie_startAngle P) (visibleSlices P)"
    unfolding visibleSlices_def slices_def by (rule loop_contiguous)
  have ne: "visibleSlices P \<noteq> []"
    using pie_visible_nonempty[OF pos] loop_visible_length[of P 0 "pie_startAngle P" "pc_data P"]
    unfolding visibleSlices_def slices_def by auto
  have first: "sl_startAngle (visibleSlices P ! 0) = pie_startAngle P"
    by (rule contiguous_hd[OF c ne])
  have chain: "\<forall>j. Suc j < length (visibleSlices P) \<longrightarrow>
            sl_startAngle (visibleSlices P ! Suc j) = sl_endAngle (visibleSlices P ! j)"
    using contiguous_nth[OF c] by blast
  have total: "jsum (map sl_span (visibleSlices P)) = pie_totalAngle P"
    by (rule pie_spans_total[OF pos prog fin])
  have sa: "pie_startAngle P = Fin (if pc_variant P = Semi then - pi else - pi / 2)"
    by (simp add: pie_startAngle_def pie_isSemi_def Math_PI_def)
  have ta: "pie_totalAngle P = Fin (if pc_variant P = Semi then pi else 2 * pi)"
    by (simp add: pie_totalAngle_def pie_isSemi_def Math_PI_def)
  obtain t where t: "pie_total P = Fin t" "0 < t"
    using pos pie_total_Fin[OF fin] by (auto simp: jgt_def)
  have both: "\<forall>d \<in> set (pc_data P). is_fin (or0 (field d (pc_valueKey P)))
                \<and> jle (Fin 0) (or0 (field d (pc_valueKey P)))"
    using fin nn by blast
  have T0: "0 \<le> (if pc_variant P = Semi then pi else 2 * pi)" by simp
  have sub: "set (visibleSlices P)
               \<subseteq> set (slices_loop P 0 (Fin (if pc_variant P = Semi then - pi else - pi / 2)) (pc_data P))"
    unfolding visibleSlices_def slices_def sa by auto
  have fwd: "\<forall>s \<in> set (visibleSlices P). jle (sl_startAngle s) (sl_endAngle s)"
    using loop_forward[OF t prog ta T0 both] sub by blast
  have finite_ends: "\<forall>s \<in> set (visibleSlices P). is_fin (sl_endAngle s)"
    using loop_finite[OF t prog ta fin] sub by blast
  have ord: "\<forall>i j. i < j \<and> j < length (visibleSlices P) \<longrightarrow>
            jle (sl_endAngle (visibleSlices P ! i)) (sl_startAngle (visibleSlices P ! j))"
    using contiguous_ordered[OF c fwd] by blast
  have "jsum (map sl_span (visibleSlices P))
        = jadd (Fin 0) (jsub (sl_endAngle (last (visibleSlices P)))
                             (Fin (if pc_variant P = Semi then - pi else - pi / 2)))"
    unfolding jsum_def by (rule spans_telescope[OF c[unfolded sa] ne finite_ends])
  moreover obtain l where l: "sl_endAngle (last (visibleSlices P)) = Fin l"
    using finite_ends ne by (metis is_fin_iff last_in_set)
  ultimately have lastend: "sl_endAngle (last (visibleSlices P)) = jadd (pie_startAngle P) (pie_totalAngle P)"
    using total unfolding sa ta l by (auto simp: jsub_def split: if_splits)
  show ?thesis
    using hid ne first chain total sa ta fwd ord lastend by blast
qed

theorem pie_slices_contiguous_witness:
  "visibleSlices \<lparr> pc_data = [[''value'' \<mapsto> Num (Fin 30)], [''value'' \<mapsto> Num (Fin 99)],
                              [''value'' \<mapsto> Num (Fin 70)]],
                   pc_valueKey = ''value'', pc_variant = PieDefault, pc_color = ''violet'',
                   pc_donutWidth = Fin 60, pc_width = Fin 300, pc_height = Fin 300,
                   pc_showLegend = True, pc_legendPosition = LegendBottom,
                   pc_animationProgress = Fin 1, pc_hiddenSlices = {1} \<rparr> \<noteq> []
   \<and> sl_startAngle (visibleSlices \<lparr> pc_data = [[''value'' \<mapsto> Num (Fin 30)], [''value'' \<mapsto> Num (Fin 99)],
                              [''value'' \<mapsto> Num (Fin 70)]],
                   pc_valueKey = ''value'', pc_variant = PieDefault, pc_color = ''violet'',
                   pc_donutWidth = Fin 60, pc_width = Fin 300, pc_height = Fin 300,
                   pc_showLegend = True, pc_legendPosition = LegendBottom,
                   pc_animationProgress = Fin 1, pc_hiddenSlices = {1} \<rparr> ! 0) = Fin (- pi / 2)
   \<and> sl_startAngle (visibleSlices \<lparr> pc_data = [[''value'' \<mapsto> Num (Fin 30)], [''value'' \<mapsto> Num (Fin 99)],
                              [''value'' \<mapsto> Num (Fin 70)]],
                   pc_valueKey = ''value'', pc_variant = PieDefault, pc_color = ''violet'',
                   pc_donutWidth = Fin 60, pc_width = Fin 300, pc_height = Fin 300,
                   pc_showLegend = True, pc_legendPosition = LegendBottom,
                   pc_animationProgress = Fin 1, pc_hiddenSlices = {1} \<rparr> ! 1)
     = sl_endAngle (visibleSlices \<lparr> pc_data = [[''value'' \<mapsto> Num (Fin 30)], [''value'' \<mapsto> Num (Fin 99)],
                              [''value'' \<mapsto> Num (Fin 70)]],
                   pc_valueKey = ''value'', pc_variant = PieDefault, pc_color = ''violet'',
                   pc_donutWidth = Fin 60, pc_width = Fin 300, pc_height = Fin 300,
                   pc_showLegend = True, pc_legendPosition = LegendBottom,
                   pc_animationProgress = Fin 1, pc_hiddenSlices = {1} \<rparr> ! 0)
   \<and> jsum (map sl_span (visibleSlices \<lparr> pc_data = [[''value'' \<mapsto> Num (Fin 30)], [''value'' \<mapsto> Num (Fin 99)],
                              [''value'' \<mapsto> Num (Fin 70)]],
                   pc_valueKey = ''value'', pc_variant = PieDefault, pc_color = ''violet'',
                   pc_donutWidth = Fin 60, pc_width = Fin 300, pc_height = Fin 300,
                   pc_showLegend = True, pc_legendPosition = LegendBottom,
                   pc_animationProgress = Fin 1, pc_hiddenSlices = {1} \<rparr>)) = Fin (2 * pi)
   \<and> jle (sl_endAngle (visibleSlices \<lparr> pc_data = [[''value'' \<mapsto> Num (Fin 30)], [''value'' \<mapsto> Num (Fin 99)],
                              [''value'' \<mapsto> Num (Fin 70)]],
                   pc_valueKey = ''value'', pc_variant = PieDefault, pc_color = ''violet'',
                   pc_donutWidth = Fin 60, pc_width = Fin 300, pc_height = Fin 300,
                   pc_showLegend = True, pc_legendPosition = LegendBottom,
                   pc_animationProgress = Fin 1, pc_hiddenSlices = {1} \<rparr> ! 0))
          (sl_startAngle (visibleSlices \<lparr> pc_data = [[''value'' \<mapsto> Num (Fin 30)], [''value'' \<mapsto> Num (Fin 99)],
                              [''value'' \<mapsto> Num (Fin 70)]],
                   pc_valueKey = ''value'', pc_variant = PieDefault, pc_color = ''violet'',
                   pc_donutWidth = Fin 60, pc_width = Fin 300, pc_height = Fin 300,
                   pc_showLegend = True, pc_legendPosition = LegendBottom,
                   pc_animationProgress = Fin 1, pc_hiddenSlices = {1} \<rparr> ! 1))
   \<and> sl_endAngle (last (visibleSlices \<lparr> pc_data = [[''value'' \<mapsto> Num (Fin 30)], [''value'' \<mapsto> Num (Fin 99)],
                              [''value'' \<mapsto> Num (Fin 70)]],
                   pc_valueKey = ''value'', pc_variant = PieDefault, pc_color = ''violet'',
                   pc_donutWidth = Fin 60, pc_width = Fin 300, pc_height = Fin 300,
                   pc_showLegend = True, pc_legendPosition = LegendBottom,
                   pc_animationProgress = Fin 1, pc_hiddenSlices = {1} \<rparr>)) = Fin (3 * pi / 2)"
proof -
  let ?P = "\<lparr> pc_data = [[''value'' \<mapsto> Num (Fin 30)], [''value'' \<mapsto> Num (Fin 99)],
                              [''value'' \<mapsto> Num (Fin 70)]],
                   pc_valueKey = ''value'', pc_variant = PieDefault, pc_color = ''violet'',
                   pc_donutWidth = Fin 60, pc_width = Fin 300, pc_height = Fin 300,
                   pc_showLegend = True, pc_legendPosition = LegendBottom,
                   pc_animationProgress = Fin 1, pc_hiddenSlices = {1} \<rparr>"
  have tot: "pie_total ?P = Fin 100"
    by (simp add: pie_total_def pie_visibleData_def filterVisible_def field_def jor_def truthy_def
        upt_rec)
  have pos: "jgt (pie_total ?P) (Fin 0)" unfolding jgt_def tot by simp
  have prog: "pc_animationProgress ?P = Fin 1" by simp
  have fin: "\<forall>d \<in> set (pc_data ?P). is_fin (or0 (field d (pc_valueKey ?P)))"
    by (simp add: field_def jor_def truthy_def)
  have nn: "\<forall>d \<in> set (pc_data ?P). jle (Fin 0) (or0 (field d (pc_valueKey ?P)))"
    by (simp add: field_def jor_def truthy_def jle_Fin)
  note T = pie_slices_contiguous[OF pos prog fin nn]
  note T2 = T[THEN conjunct2]
  note T3 = T2[THEN conjunct2]
  note T4 = T3[THEN conjunct2]
  note T5 = T4[THEN conjunct2]
  note T6 = T5[THEN conjunct2]
  note T7 = T6[THEN conjunct2]
  note T8 = T7[THEN conjunct2]
  note T9 = T8[THEN conjunct2]
  note T10 = T9[THEN conjunct2]
  have len: "Suc 0 < length (visibleSlices ?P)"
    unfolding visibleSlices_def slices_def loop_visible_length by simp
  have lt: "0 < Suc 0 \<and> Suc 0 < length (visibleSlices ?P)"
    using len by simp
  have sa: "pie_startAngle ?P = Fin (- pi / 2)"
    using T6[THEN conjunct1] by simp
  have ta: "pie_totalAngle ?P = Fin (2 * pi)"
    using T7[THEN conjunct1] by simp
  have t1: "visibleSlices ?P \<noteq> []" by (rule T2[THEN conjunct1])
  have t2: "sl_startAngle (visibleSlices ?P ! 0) = Fin (- pi / 2)"
    using T3[THEN conjunct1] unfolding sa .
  have t3: "sl_startAngle (visibleSlices ?P ! 1) = sl_endAngle (visibleSlices ?P ! 0)"
    using T4[THEN conjunct1, THEN spec, THEN mp, OF len] unfolding One_nat_def .
  have t4: "jsum (map sl_span (visibleSlices ?P)) = Fin (2 * pi)"
    using T5[THEN conjunct1] unfolding ta .
  have t5: "jle (sl_endAngle (visibleSlices ?P ! 0)) (sl_startAngle (visibleSlices ?P ! 1))"
    using T9[THEN conjunct1, THEN spec, THEN spec, THEN mp, OF lt] unfolding One_nat_def .
  have t6: "sl_endAngle (last (visibleSlices ?P)) = Fin (3 * pi / 2)"
    using T10 unfolding sa ta by simp
  show ?thesis by (intro conjI t1 t2 t3 t4 t5 t6)
qed

subsection \<open>Missing fields\<close>

lemma or0_fillMissing: "or0 (field (fillMissing d) k) = or0 (field d k)"
  by (cases "field d k") (simp_all add: fillMissing_def field_def jor_def truthy_def)

lemma slice0_map: "slice0 k (map f xs) = map f (slice0 k xs)"
  by (cases k) (simp_all add: take_map)

lemma visiblePrefix_map: "visiblePrefix p (map f xs) = map f (visiblePrefix p xs)"
  by (simp add: visiblePrefix_def slice0_map)

lemma tangentAt_map:
  assumes "\<And>p. pt_x (f p) = pt_x p" "\<And>p. pt_y (f p) = pt_y p"
    and "i < length vp" "2 \<le> length vp"
  shows "tangentAt (map f vp) i = tangentAt vp i"
proof -
  have "i \<noteq> 0 \<Longrightarrow> i \<noteq> length vp - 1 \<Longrightarrow> i + 1 < length vp \<and> i - 1 < length vp"
    using assms(3) by auto
  then show ?thesis
    using assms by (auto simp: tangentAt_def Let_def)
qed

lemma bezierSegment_map:
  assumes "\<And>p. pt_x (f p) = pt_x p" "\<And>p. pt_y (f p) = pt_y p"
    and "Suc i < length vp"
  shows "bezierSegment (map f vp) ts i = bezierSegment vp ts i"
  using assms by (simp add: bezierSegment_def Let_def)

lemma monotoneSegments_map:
  assumes xy: "\<And>p. pt_x (f p) = pt_x p" "\<And>p. pt_y (f p) = pt_y p"
    and n: "2 \<le> length vp"
  shows "monotoneSegments (map f vp) = monotoneSegments vp"
proof -
  have t: "map (tangentAt (map f vp)) [0 ..< length vp] = map (tangentAt vp) [0 ..< length vp]"
    by (rule map_cong[OF refl]) (simp add: tangentAt_map[OF xy _ n])
  show ?thesis
    unfolding monotoneSegments_def Let_def length_map t
    by (rule map_cong[OF refl]) (simp add: bezierSegment_map[OF xy])
qed

lemma generateLinePath_map:
  assumes xy: "\<And>p. pt_x (f p) = pt_x p" "\<And>p. pt_y (f p) = pt_y p"
  shows "area_generateLinePath P (map f pts) sm = area_generateLinePath P pts sm"
proof -
  let ?vp = "visiblePrefix (ac_animationProgress P) pts"
  have step: "map (\<lambda>i. [HLine (pt_x (map f ?vp ! i)), VLine (pt_y (map f ?vp ! i))]) [Suc 0 ..< length ?vp]
            = map (\<lambda>i. [HLine (pt_x (?vp ! i)), VLine (pt_y (?vp ! i))]) [Suc 0 ..< length ?vp]"
    by (rule map_cong[OF refl]) (simp add: xy)
  have line: "map (\<lambda>i. if i = 0 then MoveTo (pt_x (map f ?vp ! i)) (pt_y (map f ?vp ! i))
                         else LineTo (pt_x (map f ?vp ! i)) (pt_y (map f ?vp ! i))) [0 ..< length ?vp]
            = map (\<lambda>i. if i = 0 then MoveTo (pt_x (?vp ! i)) (pt_y (?vp ! i))
                         else LineTo (pt_x (?vp ! i)) (pt_y (?vp ! i))) [0 ..< length ?vp]"
    by (rule map_cong[OF refl]) (auto simp: xy)
  have hd0: "?vp \<noteq> [] \<Longrightarrow> pt_x (map f ?vp ! 0) = pt_x (?vp ! 0) \<and> pt_y (map f ?vp ! 0) = pt_y (?vp ! 0)"
    by (simp add: xy)
  have two: "length ?vp = 2 \<Longrightarrow> pt_x (map f ?vp ! 1) = pt_x (?vp ! 1) \<and> pt_y (map f ?vp ! 1) = pt_y (?vp ! 1)"
    by (simp add: xy)
  have seg: "\<not> length ?vp < 2 \<Longrightarrow> monotoneSegments (map f ?vp) = monotoneSegments ?vp"
    by (simp add: monotoneSegments_map[OF xy])
  show ?thesis
  proof (cases "length pts < 2")
    case True
    then show ?thesis by (simp add: area_generateLinePath_def)
  next
    case long: False
    show ?thesis
    proof (cases "ac_variant P = Stepped")
      case True
      with long show ?thesis
        by (cases "?vp = []")
           (simp_all add: area_generateLinePath_def Let_def visiblePrefix_map step xy)
    next
      case ns: False
      show ?thesis
      proof (cases sm)
        case False
        with long ns show ?thesis
          by (simp add: area_generateLinePath_def Let_def visiblePrefix_map line)
      next
        case True
        consider "length ?vp < 2" | "length ?vp = 2" | "2 < length ?vp" by linarith
        then show ?thesis
        proof cases
          case 1
          with long ns True show ?thesis
            by (simp add: area_generateLinePath_def Let_def visiblePrefix_map)
        next
          case 2
          with long ns True show ?thesis
            by (simp add: area_generateLinePath_def Let_def visiblePrefix_map xy)
        next
          case 3
          then have "?vp \<noteq> []" by auto
          from hd0[OF this] 3 long ns True seg show ?thesis
            by (simp add: area_generateLinePath_def Let_def visiblePrefix_map)
        qed
      qed
    qed
  qed
qed

lemma area_maxValue_filled:
  "area_maxValue (P\<lparr>ac_data := map fillMissing (ac_data P)\<rparr>) = area_maxValue P"
  by (simp add: area_maxValue_def area_visibleYKeys_def area_yKeys_def area_isStacked_def
      area_isMultiSeries_def Let_def o_def or0_fillMissing)

lemma area_layout_filled:
  "area_indexX (P\<lparr>ac_data := map fillMissing (ac_data P)\<rparr>) i = area_indexX P i"
  "area_valueY (P\<lparr>ac_data := map fillMissing (ac_data P)\<rparr>) v = area_valueY P v"
  using area_maxValue_filled[of P]
  by (simp_all add: area_indexX_def area_valueY_def area_valueRange_def area_chartX_def
      area_chartY_def area_chartWidth_def area_chartHeight_def)

lemma area_getPoints_filled:
  "area_getPoints (P\<lparr>ac_data := map fillMissing (ac_data P)\<rparr>) key sv
   = map (\<lambda>p. p\<lparr>pt_item := fillMissing (pt_item p)\<rparr>) (area_getPoints P key sv)"
  by (simp add: area_getPoints_def area_layout_filled Let_def or0_fillMissing)

lemma allPoints_loop_filled:
  "allPoints_loop (P\<lparr>ac_data := map fillMissing (ac_data P)\<rparr>) k sv keys
   = map (\<lambda>e. e\<lparr>se_points := map (\<lambda>p. p\<lparr>pt_item := fillMissing (pt_item p)\<rparr>) (se_points e)\<rparr>)
         (allPoints_loop P k sv keys)"
proof (induction keys arbitrary: k sv)
  case Nil
  then show ?case by simp
next
  case (Cons key keys)
  have st: "area_isStacked (P\<lparr>ac_data := map fillMissing (ac_data P)\<rparr>) = area_isStacked P"
    by (simp add: area_isStacked_def area_isMultiSeries_def area_yKeys_def)
  have upd: "map (\<lambda>i. jadd (sv ! i) (or0 (field (map fillMissing (ac_data P) ! i) key))) [0 ..< length (ac_data P)]
           = map (\<lambda>i. jadd (sv ! i) (or0 (field (ac_data P ! i) key))) [0 ..< length (ac_data P)]"
    by (rule map_cong[OF refl]) (simp add: or0_fillMissing)
  show ?case
    by (simp add: Cons.IH st area_getPoints_filled upd)
qed

lemma area_allPoints_filled:
  "area_allPoints (P\<lparr>ac_data := map fillMissing (ac_data P)\<rparr>)
   = map (\<lambda>e. e\<lparr>se_points := map (\<lambda>p. p\<lparr>pt_item := fillMissing (pt_item p)\<rparr>) (se_points e)\<rparr>)
         (area_allPoints P)"
  by (simp add: area_allPoints_def allPoints_loop_filled area_yKeys_def comp_def)

lemma generateLinePath_data:
  "area_generateLinePath (P\<lparr>ac_data := ds\<rparr>) qs sm = area_generateLinePath P qs sm"
  by (simp add: area_generateLinePath_def)

lemma generateLinePath_filled:
  "area_generateLinePath (P\<lparr>ac_data := map fillMissing (ac_data P)\<rparr>)
     (map (\<lambda>p. p\<lparr>pt_item := fillMissing (pt_item p)\<rparr>) pts) sm
   = area_generateLinePath P pts sm"
  by (simp add: generateLinePath_data generateLinePath_map)

lemma bar_maxValue_filled:
  "bar_maxValue (B\<lparr>bc_data := map fillMissing (bc_data B)\<rparr>) = bar_maxValue B"
  by (simp add: bar_maxValue_def bar_visibleYKeys_def bar_yKeys_def Let_def o_def or0_fillMissing)

lemma bar_layout_filled:
  "bar_barHeight (B\<lparr>bc_data := map fillMissing (bc_data B)\<rparr>) v = bar_barHeight B v"
  "bar_x (B\<lparr>bc_data := map fillMissing (bc_data B)\<rparr>) i = bar_x B i"
  "bar_chartHeight (B\<lparr>bc_data := map fillMissing (bc_data B)\<rparr>) = bar_chartHeight B"
  "bar_chartWidth (B\<lparr>bc_data := map fillMissing (bc_data B)\<rparr>) = bar_chartWidth B"
  "bar_chartX (B\<lparr>bc_data := map fillMissing (bc_data B)\<rparr>) = bar_chartX B"
  "bar_barGap (B\<lparr>bc_data := map fillMissing (bc_data B)\<rparr>) = bar_barGap B"
  "bar_totalBarWidth (B\<lparr>bc_data := map fillMissing (bc_data B)\<rparr>) = bar_totalBarWidth B"
  "bar_barOffset (B\<lparr>bc_data := map fillMissing (bc_data B)\<rparr>) = bar_barOffset B"
  "bar_actualBarWidth (B\<lparr>bc_data := map fillMissing (bc_data B)\<rparr>) = bar_actualBarWidth B"
  "getBarColor (B\<lparr>bc_data := map fillMissing (bc_data B)\<rparr>) i ki = getBarColor B i ki"
  "bar_gradientFill (B\<lparr>bc_data := map fillMissing (bc_data B)\<rparr>) i = bar_gradientFill B i"
  "bar_lastVisibleKeyIndex (B\<lparr>bc_data := map fillMissing (bc_data B)\<rparr>) = bar_lastVisibleKeyIndex B"
  "bar_visibleYKeys (B\<lparr>bc_data := map fillMissing (bc_data B)\<rparr>) = bar_visibleYKeys B"
  "bar_yKeys (B\<lparr>bc_data := map fillMissing (bc_data B)\<rparr>) = bar_yKeys B"
  "bar_isMultiSeries (B\<lparr>bc_data := map fillMissing (bc_data B)\<rparr>) = bar_isMultiSeries B"
  "bar_isHorizontal (B\<lparr>bc_data := map fillMissing (bc_data B)\<rparr>) = bar_isHorizontal B"
  using bar_maxValue_filled[of B]
  by (simp_all add: bar_barHeight_def bar_x_def bar_chartHeight_def bar_chartWidth_def
      bar_chartX_def bar_barGap_def bar_totalBarWidth_def bar_totalBarSpace_def bar_barOffset_def
      bar_actualBarWidth_def getBarColor_def bar_gradientFill_def bar_lastVisibleKeyIndex_def
      bar_visibleYKeys_def bar_yKeys_def bar_isMultiSeries_def bar_isHorizontal_def)

lemma stackedBars_loop_filled:
  "i < length (bc_data B) \<Longrightarrow>
   stackedBars_loop (B\<lparr>bc_data := map fillMissing (bc_data B)\<rparr>) i ki cy keys
   = stackedBars_loop B i ki cy keys"
  by (induction keys arbitrary: ki cy) (simp_all add: bar_layout_filled or0_fillMissing Let_def)

lemma groupedBars_loop_filled:
  "i < length (bc_data B) \<Longrightarrow>
   groupedBars_loop (B\<lparr>bc_data := map fillMissing (bc_data B)\<rparr>) i ki ai keys
   = groupedBars_loop B i ki ai keys"
  by (induction keys arbitrary: ki ai) (simp_all add: bar_layout_filled or0_fillMissing Let_def)

lemma bar_firstValue_filled:
  "bar_firstValue (B\<lparr>bc_data := map fillMissing (bc_data B)\<rparr>) (fillMissing d) = bar_firstValue B d"
  by (simp add: bar_firstValue_def bar_layout_filled or0_fillMissing split: list.splits)

lemma bar_renderBars_filled:
  "bar_renderBars (B\<lparr>bc_data := map fillMissing (bc_data B)\<rparr>) = bar_renderBars B"
  unfolding bar_renderBars_def bar_layout_filled
  by (rule map_cong)
     (simp_all add: stackedBars_loop_filled groupedBars_loop_filled bar_firstValue_filled
        bar_layout_filled bar_maxValue_filled Let_def)

text \<open>
  C9. A field that is \<open>undefined\<close> or \<open>null\<close> is read as 0, and the charts compute exactly what
  they compute for the data with every such field set to 0: AreaChart's maximum, the
  coordinates, values and stacked bases of all its points, and the line path of every
  series (so no coordinate of a path changes, to NaN or otherwise, because a field is
  missing); BarChart's maximum and all its rectangles.
\<close>

theorem missing_fields_as_zero:
  "or0 Undefined = Fin 0 \<and> or0 Null = Fin 0
   \<and> area_maxValue (P\<lparr>ac_data := map fillMissing (ac_data P)\<rparr>) = area_maxValue P
   \<and> map entryCoords (area_allPoints (P\<lparr>ac_data := map fillMissing (ac_data P)\<rparr>))
       = map entryCoords (area_allPoints P)
   \<and> map (\<lambda>e. area_generateLinePath (P\<lparr>ac_data := map fillMissing (ac_data P)\<rparr>) (se_points e) sm)
          (area_allPoints (P\<lparr>ac_data := map fillMissing (ac_data P)\<rparr>))
       = map (\<lambda>e. area_generateLinePath P (se_points e) sm) (area_allPoints P)
   \<and> bar_maxValue (B\<lparr>bc_data := map fillMissing (bc_data B)\<rparr>) = bar_maxValue B
   \<and> bar_renderBars (B\<lparr>bc_data := map fillMissing (bc_data B)\<rparr>) = bar_renderBars B"
proof (intro conjI)
  show "map entryCoords (area_allPoints (P\<lparr>ac_data := map fillMissing (ac_data P)\<rparr>))
       = map entryCoords (area_allPoints P)"
    by (simp add: area_allPoints_filled entryCoords_def coords_def o_def)
  show "map (\<lambda>e. area_generateLinePath (P\<lparr>ac_data := map fillMissing (ac_data P)\<rparr>) (se_points e) sm)
          (area_allPoints (P\<lparr>ac_data := map fillMissing (ac_data P)\<rparr>))
       = map (\<lambda>e. area_generateLinePath P (se_points e) sm) (area_allPoints P)"
    by (simp add: area_allPoints_filled o_def generateLinePath_filled)
qed (simp_all add: area_maxValue_filled bar_maxValue_filled bar_renderBars_filled)

subsection \<open>Hidden series\<close>




































































end
